theory Spec2Isabelle
  imports Main "HOL-Library.Sublist" "HOL-Library.Stream"
begin

section \<open>Python values\<close>

text \<open>
  A Python \<open>str\<close> is a sequence of Unicode code points, and \<open>len\<close>, \<open>strip\<close>,
  \<open>in\<close>, \<open>isalpha\<close> and \<open>isupper\<close> all work on code points. A string is therefore a
  list of code points (natural numbers); \<open>py\<close> turns an ASCII literal of the source into
  such a list.
\<close>

type_synonym pystr = "nat list"

definition py :: "string \<Rightarrow> pystr" where
  "py s = map of_char s"

text \<open>\<open>s * n\<close> on a string, as in \<open>"=" * 60\<close>.\<close>

definition str_times :: "pystr \<Rightarrow> nat \<Rightarrow> pystr" where
  "str_times s n = concat (replicate n s)"

text \<open>\<open>str(n)\<close> for a non-negative \<open>int\<close>: the decimal digits.\<close>

fun str_nat :: "nat \<Rightarrow> pystr" where
  "str_nat n = (if n < 10 then [48 + n] else str_nat (n div 10) @ [48 + n mod 10])"

declare str_nat.simps [simp del]

text \<open>
  The characters \<open>str.strip()\<close> removes: the code points CPython's
  \<open>_PyUnicode_IsWhitespace\<close> accepts.
\<close>

definition is_space :: "nat \<Rightarrow> bool" where
  "is_space c =
     ((9 \<le> c \<and> c \<le> 13) \<or> (28 \<le> c \<and> c \<le> 32) \<or> c = 0x85 \<or> c = 0xA0 \<or> c = 0x1680
      \<or> (0x2000 \<le> c \<and> c \<le> 0x200A) \<or> c = 0x2028 \<or> c = 0x2029 \<or> c = 0x202F
      \<or> c = 0x205F \<or> c = 0x3000)"

definition strip :: "pystr \<Rightarrow> pystr" where
  "strip s = rev (dropWhile is_space (rev (dropWhile is_space s)))"

text \<open>\<open>sub in s\<close> on strings: \<open>sub\<close> occurs in \<open>s\<close> as a run of consecutive characters.\<close>

fun is_prefix :: "pystr \<Rightarrow> pystr \<Rightarrow> bool" where
  "is_prefix [] s = True"
| "is_prefix (x # xs) [] = False"
| "is_prefix (x # xs) (y # ys) = (x = y \<and> is_prefix xs ys)"

fun str_contains :: "pystr \<Rightarrow> pystr \<Rightarrow> bool" where
  "str_contains [] sub = (sub = [])"
| "str_contains (c # cs) sub = (is_prefix sub (c # cs) \<or> str_contains cs sub)"

text \<open>
  The values the scripts handle: what \<open>json\<close> parses and writes. A \<open>dict\<close> keeps its
  insertion order, so it is an association list. A \<open>float\<close> is kept as sign, mantissa
  and binary exponent, or as one of the special values the \<open>json\<close> module accepts.
\<close>

datatype pyfloat = Finite bool nat int | Infinity bool | NaN

datatype pyval =
    PNone
  | PBool bool
  | PInt int
  | PFloat pyfloat
  | PStr pystr
  | PList "pyval list"
  | PDict "(pystr \<times> pyval) list"

text \<open>The truth value of an object in \<open>if x:\<close> and \<open>not x\<close>.\<close>

fun truthy :: "pyval \<Rightarrow> bool" where
  "truthy PNone = False"
| "truthy (PBool b) = b"
| "truthy (PInt i) = (i \<noteq> 0)"
| "truthy (PFloat (Finite s m e)) = (m \<noteq> 0)"
| "truthy (PFloat (Infinity s)) = True"
| "truthy (PFloat NaN) = True"
| "truthy (PStr s) = (s \<noteq> [])"
| "truthy (PList xs) = (xs \<noteq> [])"
| "truthy (PDict kvs) = (kvs \<noteq> [])"

subsection \<open>Exceptions\<close>

text \<open>
  The exception classes that the handlers of the scripts tell apart, with the classes of
  \<open>requests.exceptions\<close> and of the standard library as they inherit from each other:
  \<open>ConnectTimeout\<close> is both a \<open>ConnectionError\<close> and a \<open>Timeout\<close>; the decode error
  that \<open>Response.json()\<close> raises in current versions of \<open>requests\<close> is both a
  \<open>RequestException\<close> and a \<open>json.JSONDecodeError\<close>; every \<open>RequestException\<close> is an
  \<open>OSError\<close>; \<open>json.JSONDecodeError\<close> and \<open>UnicodeDecodeError\<close> are \<open>ValueError\<close>s.
  An exception carries the text that \<open>str(error)\<close> gives.
\<close>

datatype exc_class =
    ReadTimeout | ConnectTimeout | RequestsConnectionError | HTTPError
  | RequestsJSONDecodeError | OtherRequestException
  | JSONDecodeError | UnicodeDecodeError | ValueError | TypeError | KeyError
  | FileNotFoundError | PermissionError | OtherOSError | OtherException

datatype exc = Exc exc_class pystr

fun exc_class_of :: "exc \<Rightarrow> exc_class" where
  "exc_class_of (Exc c m) = c"

fun exc_str :: "exc \<Rightarrow> pystr" where
  "exc_str (Exc c m) = m"

definition is_Timeout :: "exc \<Rightarrow> bool" where
  "is_Timeout e = (exc_class_of e \<in> {ReadTimeout, ConnectTimeout})"

definition is_ConnectionError :: "exc \<Rightarrow> bool" where
  "is_ConnectionError e = (exc_class_of e \<in> {RequestsConnectionError, ConnectTimeout})"

definition is_HTTPError :: "exc \<Rightarrow> bool" where
  "is_HTTPError e = (exc_class_of e = HTTPError)"

definition is_RequestException :: "exc \<Rightarrow> bool" where
  "is_RequestException e =
     (exc_class_of e \<in> {ReadTimeout, ConnectTimeout, RequestsConnectionError, HTTPError,
        RequestsJSONDecodeError, OtherRequestException})"

definition is_JSONDecodeError :: "exc \<Rightarrow> bool" where
  "is_JSONDecodeError e = (exc_class_of e \<in> {JSONDecodeError, RequestsJSONDecodeError})"

definition is_ValueError :: "exc \<Rightarrow> bool" where
  "is_ValueError e =
     (exc_class_of e \<in> {ValueError, JSONDecodeError, RequestsJSONDecodeError, UnicodeDecodeError})"

definition is_FileNotFoundError :: "exc \<Rightarrow> bool" where
  "is_FileNotFoundError e = (exc_class_of e = FileNotFoundError)"

definition is_PermissionError :: "exc \<Rightarrow> bool" where
  "is_PermissionError e = (exc_class_of e = PermissionError)"

definition is_OSError :: "exc \<Rightarrow> bool" where
  "is_OSError e =
     (exc_class_of e \<in> {FileNotFoundError, PermissionError, OtherOSError} \<or> is_RequestException e)"

text \<open>\<open>d[k]\<close> on a \<open>dict\<close>: a missing key raises \<open>KeyError\<close>, whose text is the quoted key.\<close>

definition dict_get :: "(pystr \<times> 'v) list \<Rightarrow> pystr \<Rightarrow> exc + 'v" where
  "dict_get d k =
     (case map_of d k of
        None \<Rightarrow> Inl (Exc KeyError ([39] @ k @ [39]))
      | Some v \<Rightarrow> Inr v)"

subsection \<open>The world outside the interpreter\<close>

text \<open>
  What a script prints or writes. A \<open>print\<close> of a text is \<open>Text\<close>; the prompt of an
  \<open>input\<close> call is \<open>Prompt\<close>. Three formatted strings are kept with their arguments
  instead of their characters, since their text depends on float formatting or on the
  \<open>repr\<close> of an arbitrary object:
  \<^item> \<open>LevelLine level count p\<close> is \<open>f"{level:10} : {count:4} ({percentage:5.1f}%)"\<close>;
  \<^item> \<open>RateLimit v\<close> is \<open>f"  API Rate Limit: {data['Note']}"\<close>;
  \<^item> \<open>SavedLine filename size\<close> is
    \<open>f" Data saved successfully to '{filename}' ({file_size:,} bytes)"\<close>.

  A percentage is kept as the division the source writes: \<open>Percent count total\<close> is
  \<open>count / total * 100\<close>, which Python evaluates in double precision, and \<open>PercentZero\<close>
  is the \<open>0\<close> of the \<open>else\<close> branch.
\<close>

datatype percentage = Percent nat nat | PercentZero

datatype out =
    Text pystr
  | Prompt pystr
  | LevelLine pystr nat percentage
  | RateLimit pyval
  | SavedLine pystr nat

text \<open>
  A file that a script opened for writing either holds everything the script meant to
  write (the object given to \<open>json.dump\<close>, or the chunks given to \<open>file.write\<close>), or was
  created (or truncated) by \<open>open(..., "w")\<close> and left with at most a part of it because
  a later step raised.
\<close>

datatype content = Json pyval | Chunks "out list"

datatype file_state = Complete content | Incomplete

text \<open>What the user does at an \<open>input\<close> prompt.\<close>

datatype stdin_event = Entered pystr | CtrlC | EndOfInput

record world =
  stdout :: "out list"
  stdin :: "stdin_event stream"
  files :: "pystr \<rightharpoonup> file_state"
  dirs_made :: "pystr list"

definition print :: "pystr \<Rightarrow> world \<Rightarrow> world" where
  "print s w = w\<lparr>stdout := stdout w @ [Text s]\<rparr>"

definition emit :: "out \<Rightarrow> world \<Rightarrow> world" where
  "emit x w = w\<lparr>stdout := stdout w @ [x]\<rparr>"

text \<open>
  The answers of the operating system, the network and the clock: each library call of
  the scripts whose result the script cannot determine has its result here.
  \<^item> \<open>readlines p\<close>: \<open>open(p, "r")\<close> followed by \<open>file.readlines()\<close>;
  \<^item> \<open>open_w p\<close>: \<open>open(p, "w")\<close>, \<open>None\<close> when the file was opened;
  \<^item> \<open>write_all p\<close>: the writes to the open file \<open>p\<close> and its closing at the end of the
    \<open>with\<close> block, \<open>None\<close> when all of them succeeded;
  \<^item> \<open>path_exists\<close>, \<open>makedirs\<close>, \<open>getsize\<close>: the functions of \<open>os\<close> and \<open>os.path\<close>;
  \<^item> \<open>parents_made p\<close>: the missing parent directories that \<open>os.makedirs(p)\<close> creates, one
    by one, before the \<open>mkdir\<close> of \<open>p\<close> itself succeeds or raises;
  \<^item> \<open>exchanges url\<close>: the exchange with the server that a \<open>requests.get\<close> of \<open>url\<close> sets
    off (see \<open>http_get\<close> below);
  \<^item> \<open>text_stamp\<close>, \<open>json_stamp\<close>, \<open>file_stamp\<close>, \<open>fetched_at\<close>: the formatted
    \<open>datetime.now()\<close> at the four places that read the clock.
\<close>

record response =
  status_code :: nat
  http_error_text :: pystr
  json_body :: "exc + pyval"

text \<open>
  An exchange with the server as \<open>requests.get\<close> goes through it: the time, in
  milliseconds, that it waits for the connection, the longest time that it then waits
  for bytes of the status line and the headers, the time that it waits for each further
  part of the body (\<open>requests.get\<close> reads the whole body before it returns), the text of
  the exception that a wait cut short raises, and what the exchange gives when no wait
  is cut short.
\<close>

record exchange =
  connect_wait :: nat
  headers_wait :: nat
  body_waits :: "nat list"
  timeout_text :: pystr
  reply :: "exc + response"

record env =
  readlines :: "pystr \<Rightarrow> exc + pystr list"
  open_w :: "pystr \<Rightarrow> exc option"
  write_all :: "pystr \<Rightarrow> exc option"
  path_exists :: "pystr \<Rightarrow> bool"
  makedirs :: "pystr \<Rightarrow> exc option"
  parents_made :: "pystr \<Rightarrow> pystr list"
  getsize :: "pystr \<Rightarrow> exc + nat"
  exchanges :: "pystr \<Rightarrow> exchange"
  text_stamp :: pystr
  json_stamp :: pystr
  file_stamp :: pystr
  fetched_at :: pystr

text \<open>
  \<open>requests.get(url, timeout=timeout)\<close>, with \<open>None\<close> for a call that passes no timeout.
  A timeout of \<open>t\<close> seconds bounds each single wait, not the whole call: a wait for the
  connection beyond it raises \<open>ConnectTimeout\<close>, a wait for the headers beyond it raises
  \<open>ReadTimeout\<close>, and a wait for a part of the body beyond it is raised by \<open>requests\<close> as
  its \<open>ConnectionError\<close>. Without a timeout no wait is cut short.
\<close>

definition http_get :: "env \<Rightarrow> pystr \<Rightarrow> nat option \<Rightarrow> exc + response" where
  "http_get E url timeout =
     (let x = exchanges E url in
      case timeout of
        None \<Rightarrow> reply x
      | Some t \<Rightarrow>
          if 1000 * t < connect_wait x then Inl (Exc ConnectTimeout (timeout_text x))
          else if 1000 * t < headers_wait x then Inl (Exc ReadTimeout (timeout_text x))
          else if list_ex (\<lambda>wait. 1000 * t < wait) (body_waits x) then
            Inl (Exc RequestsConnectionError (timeout_text x))
          else reply x)"

text \<open>How a run of a script ends; an uncaught exception ends the process with status 1.\<close>

datatype outcome = Returned | Exited nat | Uncaught exc

fun exit_status :: "outcome \<Rightarrow> nat" where
  "exit_status Returned = 0"
| "exit_status (Exited n) = n"
| "exit_status (Uncaught e) = 1"

section \<open>Day 04: the log analyzer\<close>

subsection \<open>\<open>read_log_file\<close>\<close>

text \<open>
  The \<open>ValueError\<close> that the function raises on an empty file is caught by its own
  second handler, like a \<open>UnicodeDecodeError\<close> of \<open>readlines\<close>.
\<close>

definition read_log_file :: "env \<Rightarrow> pystr \<Rightarrow> world \<Rightarrow> world \<times> pystr list option" where
  "read_log_file E file_path w =
     (let attempt =
        (case readlines E file_path of
           Inl e \<Rightarrow> Inl e
         | Inr lines \<Rightarrow>
             if lines = [] then Inl (Exc ValueError (py ''Log file is empty''))
             else Inr lines)
      in case attempt of
           Inr lines \<Rightarrow> (w, Some lines)
         | Inl e \<Rightarrow>
             if is_FileNotFoundError e then
               (print (py ''ERROR: File '' @ [39] @ file_path @ [39] @ py '' not found'') w, None)
             else if is_ValueError e then
               (print (py ''ERROR: '' @ exc_str e) w, None)
             else
               (print (py ''ERROR: Unexpected error reading file: '' @ exc_str e) w, None))"

subsection \<open>\<open>analyze_logs\<close>\<close>

record analysis =
  counts :: "(pystr \<times> nat) list"
  details :: "(pystr \<times> pystr list) list"
  total_lines :: nat

text \<open>
  \<open>log_counts[k] += 1\<close> and \<open>log_details[k].append(line)\<close>. The keys are those of the two
  dict literals at the top of \<open>analyze_logs\<close>.
\<close>

definition dict_incr :: "pystr \<Rightarrow> (pystr \<times> nat) list \<Rightarrow> (pystr \<times> nat) list" where
  "dict_incr k d = map (\<lambda>(k', n). if k' = k then (k', n + 1) else (k', n)) d"

definition dict_append :: "pystr \<Rightarrow> pystr \<Rightarrow> (pystr \<times> pystr list) list \<Rightarrow> (pystr \<times> pystr list) list" where
  "dict_append k line d = map (\<lambda>(k', ls). if k' = k then (k', ls @ [line]) else (k', ls)) d"

definition count_line :: "pystr \<Rightarrow> pystr \<Rightarrow> analysis \<Rightarrow> analysis" where
  "count_line k line a =
     a\<lparr>counts := dict_incr k (counts a), details := dict_append k line (details a)\<rparr>"

text \<open>The body of the \<open>for\<close> loop, and the loop.\<close>

definition analyze_line :: "analysis \<Rightarrow> pystr \<Rightarrow> analysis" where
  "analyze_line a raw =
     (let line = strip raw in
      if line = [] then a
      else
        let a1 = a\<lparr>total_lines := total_lines a + 1\<rparr> in
        if str_contains line (py ''INFO'') then count_line (py ''INFO'') line a1
        else if str_contains line (py ''WARNING'') then count_line (py ''WARNING'') line a1
        else if str_contains line (py ''ERROR'') then count_line (py ''ERROR'') line a1
        else a1)"

fun analyze_loop :: "analysis \<Rightarrow> pystr list \<Rightarrow> analysis" where
  "analyze_loop a [] = a"
| "analyze_loop a (raw # rest) = analyze_loop (analyze_line a raw) rest"

definition analyze_logs :: "pystr list \<Rightarrow> analysis" where
  "analyze_logs log_lines =
     analyze_loop
       \<lparr>counts = [(py ''INFO'', 0), (py ''WARNING'', 0), (py ''ERROR'', 0)],
        details = [(py ''INFO'', []), (py ''WARNING'', []), (py ''ERROR'', [])],
        total_lines = 0\<rparr>
       log_lines"

subsection \<open>\<open>print_summary\<close>\<close>

definition nl :: pystr where
  "nl = [10]"

definition percentage_of :: "nat \<Rightarrow> nat \<Rightarrow> percentage" where
  "percentage_of count total_messages =
     (if total_messages \<noteq> 0 then Percent count total_messages else PercentZero)"

text \<open>The first \<open>for\<close> loop of \<open>print_summary\<close>; a lookup that raises ends it.\<close>

fun print_levels :: "(pystr \<times> nat) list \<Rightarrow> nat \<Rightarrow> pystr list \<Rightarrow> world \<Rightarrow> world \<times> exc option" where
  "print_levels cs total_messages [] w = (w, None)"
| "print_levels cs total_messages (level # rest) w =
     (case dict_get cs level of
        Inl e \<Rightarrow> (w, Some e)
      | Inr count \<Rightarrow>
          print_levels cs total_messages rest
            (emit (LevelLine level count (percentage_of count total_messages)) w))"

definition print_summary :: "analysis \<Rightarrow> world \<Rightarrow> world \<times> exc option" where
  "print_summary a w =
     (let w1 = print (nl @ str_times (py ''='') 60) w;
          w2 = print (py ''LOG ANALYSIS SUMMARY'') w1;
          w3 = print (str_times (py ''='') 60) w2;
          w4 = print (py ''Total log entries processed: '' @ str_nat (total_lines a)) w3;
          w5 = print (str_times (py ''-'') 60) w4;
          cs = counts a;
          total_messages = sum_list (map snd cs)
      in case print_levels cs total_messages [py ''INFO'', py ''WARNING'', py ''ERROR''] w5 of
           (w6, Some e) \<Rightarrow> (w6, Some e)
         | (w6, None) \<Rightarrow>
             let w7 = print (str_times (py ''='') 60) w6 in
             (case dict_get cs (py ''ERROR'') of
                Inl e \<Rightarrow> (w7, Some e)
              | Inr n_error \<Rightarrow>
                  let w8 =
                    (if n_error > 0 then
                       print (nl @ py ''  CRITICAL: Found '' @ str_nat n_error
                              @ py '' ERROR message(s)'') w7
                     else w7)
                  in
                  (case dict_get cs (py ''WARNING'') of
                     Inl e \<Rightarrow> (w8, Some e)
                   | Inr n_warning \<Rightarrow>
                       let w9 =
                         (if n_warning > 0 then
                            print (py ''  ATTENTION: Found '' @ str_nat n_warning
                                   @ py '' WARNING message(s)'') w8
                          else w8)
                       in (print [] w9, None))))"

subsection \<open>\<open>write_text_summary\<close> and \<open>write_json_summary\<close>\<close>

text \<open>
  The chunks that the body of the \<open>with\<close> block passes to \<open>file.write\<close>, in order, or
  the exception of a lookup that raises. A \<open>LevelLine\<close> chunk is followed by the newline
  that ends the formatted string in the source.
\<close>

fun level_chunks :: "(pystr \<times> nat) list \<Rightarrow> nat \<Rightarrow> pystr list \<Rightarrow> exc + out list" where
  "level_chunks cs total_messages [] = Inr []"
| "level_chunks cs total_messages (level # rest) =
     (case dict_get cs level of
        Inl e \<Rightarrow> Inl e
      | Inr count \<Rightarrow>
          (case level_chunks cs total_messages rest of
             Inl e \<Rightarrow> Inl e
           | Inr chunks \<Rightarrow>
               Inr (LevelLine level count (percentage_of count total_messages) # Text nl # chunks)))"

fun message_chunks :: "analysis \<Rightarrow> pystr list \<Rightarrow> exc + out list" where
  "message_chunks a [] = Inr []"
| "message_chunks a (level # rest) =
     (case dict_get (counts a) level of
        Inl e \<Rightarrow> Inl e
      | Inr count \<Rightarrow>
          (case (if count > 0 then
                   (case dict_get (details a) level of
                      Inl e \<Rightarrow> Inl e
                    | Inr messages \<Rightarrow>
                        Inr ([Text (level @ py '' MESSAGES ('' @ str_nat count @ py ''):'' @ nl),
                              Text (str_times (py ''-'') 60 @ nl)]
                             @ map (\<lambda>message. Text (message @ nl)) messages
                             @ [Text nl]))
                 else Inr []) of
             Inl e \<Rightarrow> Inl e
           | Inr chunks \<Rightarrow>
               (case message_chunks a rest of
                  Inl e \<Rightarrow> Inl e
                | Inr later \<Rightarrow> Inr (chunks @ later))))"

definition text_summary_chunks :: "pystr \<Rightarrow> analysis \<Rightarrow> exc + out list" where
  "text_summary_chunks stamp a =
     (let head =
            [Text (str_times (py ''='') 60 @ nl),
             Text (py ''LOG ANALYSIS SUMMARY'' @ nl),
             Text (py ''Generated: '' @ stamp @ nl),
             Text (str_times (py ''='') 60 @ nl @ nl),
             Text (py ''Total log entries processed: '' @ str_nat (total_lines a) @ nl),
             Text (str_times (py ''-'') 60 @ nl @ nl)];
          cs = counts a;
          total_messages = sum_list (map snd cs)
      in case level_chunks cs total_messages [py ''INFO'', py ''WARNING'', py ''ERROR''] of
           Inl e \<Rightarrow> Inl e
         | Inr levels \<Rightarrow>
             (case message_chunks a [py ''ERROR'', py ''WARNING'', py ''INFO''] of
                Inl e \<Rightarrow> Inl e
              | Inr messages \<Rightarrow>
                  Inr (head @ levels @ [Text (nl @ str_times (py ''='') 60 @ nl @ nl)] @ messages)))"

text \<open>
  \<open>open(output_file, "w")\<close> creates or truncates the file; whatever raises after that
  leaves it incomplete. Every exception ends in the one handler of the function.
\<close>

definition write_text_summary :: "env \<Rightarrow> analysis \<Rightarrow> pystr \<Rightarrow> world \<Rightarrow> world" where
  "write_text_summary E a output_file w =
     (let failed = (\<lambda>e w'. print (py ''ERROR: Failed to write text summary: '' @ exc_str e) w') in
      case open_w E output_file of
        Some e \<Rightarrow> failed e w
      | None \<Rightarrow>
          let w1 = w\<lparr>files := (files w)(output_file \<mapsto> Incomplete)\<rparr> in
          (case text_summary_chunks (text_stamp E) a of
             Inl e \<Rightarrow> failed e w1
           | Inr chunks \<Rightarrow>
               (case write_all E output_file of
                  Some e \<Rightarrow> failed e w1
                | None \<Rightarrow>
                    print (py '' Text summary written to: '' @ output_file)
                      (w1\<lparr>files := (files w1)(output_file \<mapsto> Complete (Chunks chunks))\<rparr>))))"

definition summary_data :: "pystr \<Rightarrow> analysis \<Rightarrow> pyval" where
  "summary_data stamp a =
     PDict
       [(py ''timestamp'', PStr stamp),
        (py ''total_lines'', PInt (int (total_lines a))),
        (py ''summary'', PDict (map (\<lambda>(k, n). (k, PInt (int n))) (counts a))),
        (py ''details'', PDict (map (\<lambda>(k, ls). (k, PList (map PStr ls))) (details a)))]"

definition write_json_summary :: "env \<Rightarrow> analysis \<Rightarrow> pystr \<Rightarrow> world \<Rightarrow> world" where
  "write_json_summary E a output_file w =
     (let failed = (\<lambda>e w'. print (py ''ERROR: Failed to write JSON summary: '' @ exc_str e) w');
          data = summary_data (json_stamp E) a
      in case open_w E output_file of
           Some e \<Rightarrow> failed e w
         | None \<Rightarrow>
             let w1 = w\<lparr>files := (files w)(output_file \<mapsto> Incomplete)\<rparr> in
             (case write_all E output_file of
                Some e \<Rightarrow> failed e w1
              | None \<Rightarrow>
                  print (py '' JSON summary written to: '' @ output_file)
                    (w1\<lparr>files := (files w1)(output_file \<mapsto> Complete (Json data))\<rparr>)))"

subsection \<open>\<open>main\<close> of the log analyzer\<close>

text \<open>
  The function has no \<open>sys.exit\<close>: it returns on every path, also after
  \<open>Log analysis failed\<close>, and the process then ends with status 0. An exception of
  \<open>print_summary\<close> is the only one no handler would catch.
\<close>

definition log_main :: "env \<Rightarrow> world \<Rightarrow> world \<times> outcome" where
  "log_main E w =
     (let log_file = py ''app.log'';
          text_output = py ''log_summary.txt'';
          json_output = py ''log_summary.json'';
          w1 = print (nl @ py '' Starting Log Analysis...'') w;
          w2 = print (py '' Reading log file: '' @ log_file) w1
      in case read_log_file E log_file w2 of
           (w3, None) \<Rightarrow> (print (nl @ py '' Log analysis failed'') w3, Returned)
         | (w3, Some log_lines) \<Rightarrow>
             if log_lines = [] then (print (nl @ py '' Log analysis failed'') w3, Returned)
             else
               let w4 = print (py '' Successfully read '' @ str_nat (length log_lines) @ py '' lines'') w3;
                   a = analyze_logs log_lines
               in (case print_summary a w4 of
                     (w5, Some e) \<Rightarrow> (w5, Uncaught e)
                   | (w5, None) \<Rightarrow>
                       let w6 = print (py '' Writing output files...'') w5;
                           w7 = write_text_summary E a text_output w6;
                           w8 = write_json_summary E a json_output w7
                       in (print (nl @ py '' Log analysis completed successfully!'' @ nl) w8,
                           Returned)))"

section \<open>Day 03: the stock data fetcher\<close>

subsection \<open>Character classes\<close>

text \<open>
  \<open>str.isalpha\<close> and \<open>str.isupper\<close> read the Unicode character database that is
  compiled into the interpreter. Its rows for ASCII and for the ideographs U+4E00 to
  U+9FA5 (letters of category Lo, which have no case) are written out here; every other
  row is the parameter \<open>U\<close>, so that what is proved holds whatever those rows are.
\<close>

record ucd =
  ucd_alpha :: "nat \<Rightarrow> bool"
  ucd_upper :: "nat \<Rightarrow> bool"
  ucd_lower :: "nat \<Rightarrow> bool"
  ucd_title :: "nat \<Rightarrow> bool"

definition is_ideograph :: "nat \<Rightarrow> bool" where
  "is_ideograph c = (0x4E00 \<le> c \<and> c \<le> 0x9FA5)"

definition is_alpha :: "ucd \<Rightarrow> nat \<Rightarrow> bool" where
  "is_alpha U c =
     (if c < 128 then (65 \<le> c \<and> c \<le> 90) \<or> (97 \<le> c \<and> c \<le> 122)
      else if is_ideograph c then True
      else ucd_alpha U c)"

definition is_upper :: "ucd \<Rightarrow> nat \<Rightarrow> bool" where
  "is_upper U c =
     (if c < 128 then 65 \<le> c \<and> c \<le> 90
      else if is_ideograph c then False
      else ucd_upper U c)"

definition is_lower :: "ucd \<Rightarrow> nat \<Rightarrow> bool" where
  "is_lower U c =
     (if c < 128 then 97 \<le> c \<and> c \<le> 122
      else if is_ideograph c then False
      else ucd_lower U c)"

definition is_title :: "ucd \<Rightarrow> nat \<Rightarrow> bool" where
  "is_title U c =
     (if c < 128 then False
      else if is_ideograph c then False
      else ucd_title U c)"

text \<open>
  \<open>s.isalpha()\<close>: at least one character, all alphabetic. \<open>s.isupper()\<close>, as CPython
  computes it: a string of one character is upper when the character is; a longer one
  when no character is lowercase or titlecase and some character is uppercase. A
  character without case does not count against it.
\<close>

definition str_isalpha :: "ucd \<Rightarrow> pystr \<Rightarrow> bool" where
  "str_isalpha U s = (s \<noteq> [] \<and> list_all (is_alpha U) s)"

definition str_isupper :: "ucd \<Rightarrow> pystr \<Rightarrow> bool" where
  "str_isupper U s =
     (case s of
        [] \<Rightarrow> False
      | [c] \<Rightarrow> is_upper U c
      | _ \<Rightarrow> \<not> list_ex (\<lambda>c. is_lower U c \<or> is_title U c) s \<and> list_ex (is_upper U) s)"

subsection \<open>The validators\<close>

definition validate_api_key :: "pyval \<Rightarrow> bool" where
  "validate_api_key api_key =
     (if \<not> truthy api_key \<or> api_key = PStr (py ''YOUR_API_KEY'') then False else True)"

text \<open>\<open>isinstance(v, str)\<close>.\<close>

fun is_str :: "pyval \<Rightarrow> bool" where
  "is_str (PStr s) = True"
| "is_str v = False"

definition validate_stock_symbol :: "ucd \<Rightarrow> pyval \<Rightarrow> bool" where
  "validate_stock_symbol U symbol =
     (if \<not> truthy symbol \<or> \<not> is_str symbol then False
      else
        (case symbol of
           PStr s \<Rightarrow>
             if \<not> (1 \<le> length s \<and> length s \<le> 5 \<and> str_isalpha U s \<and> str_isupper U s) then False
             else True
         | _ \<Rightarrow> False))"

subsection \<open>\<open>fetch_stock_data\<close>\<close>

text \<open>
  \<open>key in data\<close> for a string \<open>key\<close>: among the keys of a dict, among the elements of a
  list, as a substring of a string; any other object is not iterable. \<open>data[key]\<close> for a
  string \<open>key\<close> is defined on a dict only.
\<close>

definition not_iterable :: "string \<Rightarrow> exc" where
  "not_iterable type_name =
     Exc TypeError (py ''argument of type '' @ [39] @ py type_name @ [39] @ py '' is not iterable'')"

fun py_in :: "pystr \<Rightarrow> pyval \<Rightarrow> exc + bool" where
  "py_in k (PDict kvs) = Inr (k \<in> set (map fst kvs))"
| "py_in k (PList xs) = Inr (PStr k \<in> set xs)"
| "py_in k (PStr s) = Inr (str_contains s k)"
| "py_in k PNone = Inl (not_iterable ''NoneType'')"
| "py_in k (PBool b) = Inl (not_iterable ''bool'')"
| "py_in k (PInt i) = Inl (not_iterable ''int'')"
| "py_in k (PFloat f) = Inl (not_iterable ''float'')"

fun py_item :: "pyval \<Rightarrow> pystr \<Rightarrow> exc + pyval" where
  "py_item (PDict kvs) k = dict_get kvs k"
| "py_item (PList xs) k = Inl (Exc TypeError (py ''list indices must be integers or slices, not str''))"
| "py_item (PStr s) k =
     Inl (Exc TypeError (py ''string indices must be integers, not '' @ [39] @ py ''str'' @ [39]))"
| "py_item v k = Inl (Exc TypeError (py ''object is not subscriptable''))"

text \<open>\<open>response.raise_for_status()\<close>: an \<open>HTTPError\<close> for the status codes 400 to 599.\<close>

definition raise_for_status :: "response \<Rightarrow> exc option" where
  "raise_for_status r =
     (if 400 \<le> status_code r \<and> status_code r < 600 then Some (Exc HTTPError (http_error_text r))
      else None)"

text \<open>
  The body of the \<open>try\<close> block after its first \<open>print\<close>: \<open>Inl\<close> is an exception on its
  way to the handlers, \<open>Inr\<close> a value returned from inside the block.
\<close>

definition fetch_attempt :: "env \<Rightarrow> pystr \<Rightarrow> pystr \<Rightarrow> world \<Rightarrow> world \<times> (exc + pyval option)" where
  "fetch_attempt E url symbol w =
     (case http_get E url (Some 10) of
        Inl e \<Rightarrow> (w, Inl e)
      | Inr response \<Rightarrow>
          (case raise_for_status response of
             Some e \<Rightarrow> (w, Inl e)
           | None \<Rightarrow>
               (case json_body response of
                  Inl e \<Rightarrow> (w, Inl e)
                | Inr data \<Rightarrow>
                    (case py_in (py ''Error Message'') data of
                       Inl e \<Rightarrow> (w, Inl e)
                     | Inr True \<Rightarrow>
                         (print (py '' API Error: Invalid stock symbol '' @ [39] @ symbol @ [39]) w,
                          Inr None)
                     | Inr False \<Rightarrow>
                         (case py_in (py ''Note'') data of
                            Inl e \<Rightarrow> (w, Inl e)
                          | Inr True \<Rightarrow>
                              (case py_item data (py ''Note'') of
                                 Inl e \<Rightarrow> (w, Inl e)
                               | Inr note \<Rightarrow> (emit (RateLimit note) w, Inr None))
                          | Inr False \<Rightarrow>
                              (case py_in (py ''Time Series (Daily)'') data of
                                 Inl e \<Rightarrow> (w, Inl e)
                               | Inr False \<Rightarrow>
                                   (print (py '' Unexpected API response format'') w, Inr None)
                               | Inr True \<Rightarrow>
                                   (print (py '' Successfully fetched data for '' @ symbol) w,
                                    Inr (Some data))))))))"

text \<open>The \<open>except\<close> clauses, in the order of the source; the first that matches prints.\<close>

definition fetch_handlers :: "exc \<Rightarrow> world \<Rightarrow> world" where
  "fetch_handlers e w =
     (if is_Timeout e then print (py '' Error: Request timed out after 10 seconds'') w
      else if is_ConnectionError e then
        print (py '' Error: Unable to connect to API (check internet connection)'') w
      else if is_HTTPError e then print (py '' HTTP Error: '' @ exc_str e) w
      else if is_RequestException e then print (py '' Network error: '' @ exc_str e) w
      else if is_JSONDecodeError e then print (py '' Error: Invalid JSON response from API'') w
      else print (py '' Unexpected error: '' @ exc_str e) w)"

text \<open>The string \<open>query\<close> that the function builds first.\<close>

definition query :: "pystr \<Rightarrow> pystr \<Rightarrow> pystr" where
  "query symbol api_key =
     py ''function=TIME_SERIES_DAILY'' @ py ''&symbol='' @ symbol @ py ''&apikey='' @ api_key"

definition fetch_stock_data :: "env \<Rightarrow> pystr \<Rightarrow> pystr \<Rightarrow> pystr \<Rightarrow> world \<Rightarrow> world \<times> pyval option" where
  "fetch_stock_data E api_url api_key symbol w =
     (let w1 = print (py '' Requesting data for '' @ symbol @ py ''...'') w
      in case fetch_attempt E (api_url @ query symbol api_key) symbol w1 of
           (w2, Inr result) \<Rightarrow> (w2, result)
         | (w2, Inl e) \<Rightarrow> (fetch_handlers e w2, None))"

subsection \<open>\<open>save_data_to_file\<close>\<close>

text \<open>
  \<open>os.path.dirname\<close> of \<open>posixpath\<close>: the part up to the last slash, without its trailing
  slashes unless it consists of slashes only.
\<close>

definition dirname :: "pystr \<Rightarrow> pystr" where
  "dirname p =
     (let head = rev (dropWhile (\<lambda>c. c \<noteq> 47) (rev p)) in
      if head \<noteq> [] \<and> head \<noteq> replicate (length head) 47
      then rev (dropWhile (\<lambda>c. c = 47) (rev head))
      else head)"

definition output_record :: "env \<Rightarrow> pyval \<Rightarrow> pystr \<Rightarrow> pyval" where
  "output_record E data symbol =
     PDict
       [(py ''metadata'',
           PDict [(py ''symbol'', PStr symbol),
                  (py ''fetched_at'', PStr (fetched_at E)),
                  (py ''script_version'', PStr (py ''1.1''))]),
        (py ''stock_data'', data)]"

text \<open>
  The body of the \<open>try\<close> block; \<open>Some e\<close> is an exception on its way to the handlers.
  \<open>os.makedirs\<close> creates the missing parents of the directory before the directory
  itself, so what it created before it raised stays. \<open>open(filename, "w")\<close> creates or
  truncates the file, so an exception of \<open>json.dump\<close> or of closing the file leaves it
  incomplete. Nothing in the function removes a directory or a file.
\<close>

definition save_attempt :: "env \<Rightarrow> pyval \<Rightarrow> pystr \<Rightarrow> world \<Rightarrow> world \<times> exc option" where
  "save_attempt E output_data filename w =
     (let directory = dirname filename in
      case (if directory \<noteq> [] \<and> \<not> path_exists E directory then
              (case makedirs E directory of
                 Some e \<Rightarrow> (w\<lparr>dirs_made := dirs_made w @ parents_made E directory\<rparr>, Some e)
               | None \<Rightarrow>
                   (print (py '' Created directory: '' @ directory)
                      (w\<lparr>dirs_made := dirs_made w @ parents_made E directory @ [directory]\<rparr>),
                    None))
            else (w, None)) of
        (w1, Some e) \<Rightarrow> (w1, Some e)
      | (w1, None) \<Rightarrow>
          (case open_w E filename of
             Some e \<Rightarrow> (w1, Some e)
           | None \<Rightarrow>
               let w2 = w1\<lparr>files := (files w1)(filename \<mapsto> Incomplete)\<rparr> in
               (case write_all E filename of
                  Some e \<Rightarrow> (w2, Some e)
                | None \<Rightarrow>
                    let w3 = w2\<lparr>files := (files w2)(filename \<mapsto> Complete (Json output_data))\<rparr> in
                    (case getsize E filename of
                       Inl e \<Rightarrow> (w3, Some e)
                     | Inr file_size \<Rightarrow> (emit (SavedLine filename file_size) w3, None)))))"

definition save_handlers :: "exc \<Rightarrow> pystr \<Rightarrow> world \<Rightarrow> world" where
  "save_handlers e filename w =
     (if is_FileNotFoundError e then
        print (py '' Error: Invalid file path '' @ [39] @ filename @ [39]) w
      else if is_PermissionError e then
        print (py '' Error: Permission denied writing to '' @ [39] @ filename @ [39]) w
      else if is_OSError e then print (py '' OS Error: '' @ exc_str e) w
      else print (py '' File error: '' @ exc_str e) w)"

definition save_data_to_file :: "env \<Rightarrow> pyval \<Rightarrow> pystr \<Rightarrow> pystr \<Rightarrow> world \<Rightarrow> world \<times> bool" where
  "save_data_to_file E data filename symbol w =
     (case save_attempt E (output_record E data symbol) filename w of
        (w1, None) \<Rightarrow> (w1, True)
      | (w1, Some e) \<Rightarrow> (save_handlers e filename w1, False))"

subsection \<open>\<open>get_user_input\<close>\<close>

text \<open>
  The two branches of \<open>if default:\<close> give the text of the prompt and the answer: with a
  default, the prompt shows it and an empty (stripped) line stands for it.

  The loop ends when a line is accepted, when the user interrupts, or when the input
  ends; on an input that goes on with rejected lines for ever it does not end, and the
  function has no value (\<open>None\<close>). \<open>Inl n\<close> is \<open>sys.exit(n)\<close>, which no handler of the
  script catches.
\<close>

definition prompt_text :: "pystr \<Rightarrow> pystr option \<Rightarrow> pystr" where
  "prompt_text prompt dflt =
     (case dflt of
        None \<Rightarrow> prompt @ py '': ''
      | Some d \<Rightarrow> if d \<noteq> [] then prompt @ py '' ['' @ d @ py '']: '' else prompt @ py '': '')"

definition answer :: "pystr option \<Rightarrow> pystr \<Rightarrow> pystr" where
  "answer dflt typed =
     (case dflt of
        None \<Rightarrow> strip typed
      | Some d \<Rightarrow> if d \<noteq> [] \<and> strip typed = [] then d else strip typed)"

partial_function (option) get_user_input ::
  "pystr \<Rightarrow> pystr option \<Rightarrow> (pyval \<Rightarrow> bool) option \<Rightarrow> world \<Rightarrow> (world \<times> (nat + pystr)) option"
where
  "get_user_input prompt dflt validator w =
     (let w1 = emit (Prompt (prompt_text prompt dflt)) w
      in case shd (stdin w1) of
           CtrlC \<Rightarrow> Some (print (nl @ nl @ py ''  Operation cancelled by user'') w1, Inl 0)
         | EndOfInput \<Rightarrow> Some (print (nl @ py '' Unexpected end of input'') w1, Inl 1)
         | Entered typed \<Rightarrow>
             let w2 = w1\<lparr>stdin := stl (stdin w1)\<rparr>;
                 user_input = answer dflt typed
             in if user_input = [] then
                  get_user_input prompt dflt validator
                    (print (py '' Input cannot be empty. Please try again.'') w2)
                else if (case validator of None \<Rightarrow> False | Some v \<Rightarrow> \<not> v (PStr user_input)) then
                  get_user_input prompt dflt validator
                    (print (py '' Invalid input format. Please try again.'') w2)
                else Some (w2, Inr user_input))"

subsection \<open>\<open>main\<close> of the stock data fetcher\<close>

text \<open>
  \<open>main\<close> in its two halves: the banner and the two prompts, then everything from the
  file name on, for the key and the symbol that the prompts returned.
\<close>

definition read_inputs :: "ucd \<Rightarrow> world \<Rightarrow> (world \<times> (nat + pystr \<times> pystr)) option" where
  "read_inputs U w =
     (let w1 = print (str_times (py ''='') 60) w;
          w2 = print (py '' Stock Market Data Fetcher - Enhanced Version'') w1;
          w3 = print (str_times (py ''='') 60) w2;
          w4 = print [] w3
      in case get_user_input (py ''Enter your Alpha Vantage API key'') (Some (py ''demo'')) None w4 of
           None \<Rightarrow> None
         | Some (w5, Inl status) \<Rightarrow> Some (w5, Inl status)
         | Some (w5, Inr api_key) \<Rightarrow>
             let w6 =
               (if \<not> validate_api_key (PStr api_key) \<and> api_key \<noteq> py ''demo'' then
                  print (py ''  Warning: API key looks invalid (using anyway)'') w5
                else w5)
             in (case get_user_input (py ''Enter stock symbol (e.g., IBM, AAPL, MSFT)'')
                        (Some (py ''IBM'')) (Some (validate_stock_symbol U)) w6 of
                   None \<Rightarrow> None
                 | Some (w7, Inl status) \<Rightarrow> Some (w7, Inl status)
                 | Some (w7, Inr stock_symbol) \<Rightarrow> Some (w7, Inr (api_key, stock_symbol))))"

definition output_filename :: "env \<Rightarrow> pystr \<Rightarrow> pystr" where
  "output_filename E stock_symbol =
     py ''stock_data_'' @ stock_symbol @ py ''_'' @ file_stamp E @ py ''.json''"

text \<open>The \<open>api_url\<close> that \<open>main\<close> configures.\<close>

definition main_api_url :: pystr where
  "main_api_url = py ''https://www.alphavantage.co/query?''"

definition fetch_and_save :: "env \<Rightarrow> pystr \<Rightarrow> pystr \<Rightarrow> world \<Rightarrow> world \<times> outcome" where
  "fetch_and_save E api_key stock_symbol w =
     (let api_url = main_api_url;
          filename = output_filename E stock_symbol;
          w1 = print [] w;
          w2 = print (str_times (py ''-'') 60) w1
      in case fetch_stock_data E api_url api_key stock_symbol w2 of
           (w3, stock_data) \<Rightarrow>
             (case (case stock_data of None \<Rightarrow> None | Some d \<Rightarrow> if truthy d then Some d else None) of
                Some d \<Rightarrow>
                  let w4 = print [] w3 in
                  (case save_data_to_file E d filename stock_symbol w4 of
                     (w5, True) \<Rightarrow>
                       let w6 = print [] w5;
                           w7 = print (str_times (py ''='') 60) w6;
                           w8 = print (py '' Operation completed successfully!'') w7;
                           w9 = print (py '' Stock data for '' @ stock_symbol @ py '' saved to ''
                                       @ filename) w8
                       in (print (str_times (py ''='') 60) w9, Returned)
                   | (w5, False) \<Rightarrow>
                       (print (nl @ py ''  Data fetched but could not be saved'') w5, Exited 1))
              | None \<Rightarrow>
                  let w4 = print [] w3;
                      w5 = print (str_times (py ''='') 60) w4;
                      w6 = print (py '' Operation failed - no data to save'') w5;
                      w7 = print (str_times (py ''='') 60) w6;
                      w8 = print (nl @ py '' Troubleshooting tips:'') w7;
                      w9 = print (py ''   '' @ [0x2022] @ py '' Check your API key is valid'') w8;
                      w10 = print (py ''   '' @ [0x2022] @ py '' Verify the stock symbol is correct'') w9;
                      w11 = print (py ''   '' @ [0x2022] @ py '' Ensure you haven'' @ [39] @ py ''t exceeded API rate limits'') w10;
                      w12 = print (py ''   '' @ [0x2022] @ py '' Check your internet connection'') w11
                  in (w12, Exited 1)))"

definition stock_main :: "ucd \<Rightarrow> env \<Rightarrow> world \<Rightarrow> (world \<times> outcome) option" where
  "stock_main U E w =
     (case read_inputs U w of
        None \<Rightarrow> None
      | Some (w1, Inl status) \<Rightarrow> Some (w1, Exited status)
      | Some (w1, Inr (api_key, stock_symbol)) \<Rightarrow> Some (fetch_and_save E api_key stock_symbol w1))"

section \<open>Day 02: the first API fetcher\<close>

text \<open>
  \<open>fetch_api_data\<close> has no \<open>try\<close>: whatever \<open>requests.get\<close>, \<open>raise_for_status\<close> or
  \<open>response.json()\<close> raises leaves the function (\<open>Inl\<close>). The call passes no timeout.
\<close>

definition API_URL :: pystr where
  "API_URL = py ''https://jsonplaceholder.typicode.com/users''"

definition fetch_api_data :: "env \<Rightarrow> exc + pyval" where
  "fetch_api_data E =
     (case http_get E API_URL None of
        Inl e \<Rightarrow> Inl e
      | Inr response \<Rightarrow>
          (case raise_for_status response of
             Some e \<Rightarrow> Inl e
           | None \<Rightarrow> json_body response))"

section \<open>Notions of the specification\<close>

subsection \<open>The steps of persisting\<close>

text \<open>
  The directory step of \<open>save_data_to_file\<close> is refused when the directory is named,
  does not exist and \<open>os.makedirs\<close> raises; the sink is opened when that step is not
  refused and \<open>open\<close> succeeds.
\<close>

definition directory_refused :: "env \<Rightarrow> pystr \<Rightarrow> bool" where
  "directory_refused E filename =
     (dirname filename \<noteq> [] \<and> \<not> path_exists E (dirname filename)
      \<and> makedirs E (dirname filename) \<noteq> None)"

definition sink_opened :: "env \<Rightarrow> pystr \<Rightarrow> bool" where
  "sink_opened E filename = (\<not> directory_refused E filename \<and> open_w E filename = None)"




text \<open>The lines that \<open>main\<close> prints when the fetch gave nothing.\<close>

definition failure_report :: "out list" where
  "failure_report =
     [Text [],
      Text (str_times (py ''='') 60),
      Text (py '' Operation failed - no data to save''),
      Text (str_times (py ''='') 60),
      Text (nl @ py '' Troubleshooting tips:''),
      Text (py ''   '' @ [0x2022] @ py '' Check your API key is valid''),
      Text (py ''   '' @ [0x2022] @ py '' Verify the stock symbol is correct''),
      Text (py ''   '' @ [0x2022] @ py '' Ensure you haven'' @ [39] @ py ''t exceeded API rate limits''),
      Text (py ''   '' @ [0x2022] @ py '' Check your internet connection'')]"

text \<open>
  \<open>save_data_to_file\<close> returns \<open>True\<close> exactly when the sink is opened, the writes
  succeed and \<open>os.path.getsize\<close> answers (see \<open>save_result\<close> below). The log is
  unreadable for \<open>main\<close> of the log analyzer when reading it raises or gives no line.
\<close>

definition save_ok :: "env \<Rightarrow> pystr \<Rightarrow> bool" where
  "save_ok E fn = (sink_opened E fn \<and> write_all E fn = None \<and> (\<exists>n. getsize E fn = Inr n))"

definition log_unreadable :: "env \<Rightarrow> bool" where
  "log_unreadable E = (case readlines E (py ''app.log'') of Inl e \<Rightarrow> True | Inr ls \<Rightarrow> ls = [])"

text \<open>
  An input event ends the prompt loop when it is a typed line whose answer is not empty
  and passes the validator (if any), an interrupt, or the end of the input.
\<close>

definition ends_prompt :: "pystr option \<Rightarrow> (pyval \<Rightarrow> bool) option \<Rightarrow> stdin_event \<Rightarrow> bool" where
  "ends_prompt dflt validator ev =
     (case ev of
        Entered typed \<Rightarrow>
          answer dflt typed \<noteq> []
          \<and> (case validator of None \<Rightarrow> True | Some v \<Rightarrow> v (PStr (answer dflt typed)))
      | CtrlC \<Rightarrow> True
      | EndOfInput \<Rightarrow> True)"

subsection \<open>The classification rule in the words of the specification\<close>

text \<open>
  The level of a line: the first of \<open>INFO\<close>, \<open>WARNING\<close>, \<open>ERROR\<close>, in this order, that
  occurs in the line as a substring (\<open>sublist\<close> is the library's notion of a run of
  consecutive elements), compared character by character, so with case.
\<close>

definition first_level :: "pystr \<Rightarrow> pystr option" where
  "first_level line =
     find (\<lambda>level. sublist level line) [py ''INFO'', py ''WARNING'', py ''ERROR'']"

text \<open>The counters have the three keys of the dict literal, in its order.\<close>

definition levels_ok :: "analysis \<Rightarrow> bool" where
  "levels_ok a = (map fst (counts a) = [py ''INFO'', py ''WARNING'', py ''ERROR''])"

text \<open>\<open>sum(counts.values())\<close>, and the formatted level lines among printed lines.\<close>

definition sum_counts :: "analysis \<Rightarrow> nat" where
  "sum_counts a = sum_list (map snd (counts a))"

definition level_lines :: "out list \<Rightarrow> out list" where
  "level_lines xs = filter (\<lambda>x. case x of LevelLine level count p \<Rightarrow> True | _ \<Rightarrow> False) xs"

section \<open>Sample runs\<close>

text \<open>
  A world with nothing printed and no file written, whose user has closed the input, and
  an environment in which every call succeeds and every exchange is quick; the examples
  below vary them.
\<close>

definition quiet_world :: world where
  "quiet_world = \<lparr>stdout = [], stdin = sconst EndOfInput, files = Map.empty, dirs_made = []\<rparr>"

definition typing_world :: world where
  "typing_world =
     quiet_world\<lparr>stdin := Entered (py ''demo'') ## Entered (py ''IBM'') ## sconst EndOfInput\<rparr>"

definition quick_exchange :: "exc + response \<Rightarrow> exchange" where
  "quick_exchange r =
     \<lparr>connect_wait = 40, headers_wait = 120, body_waits = [15],
      timeout_text = py ''Read timed out. (read timeout=10)'', reply = r\<rparr>"

definition calm_env :: env where
  "calm_env =
     \<lparr>readlines = (\<lambda>p. Inr [py ''INFO service started'' @ nl]),
      open_w = (\<lambda>p. None),
      write_all = (\<lambda>p. None),
      path_exists = (\<lambda>p. True),
      makedirs = (\<lambda>p. None),
      parents_made = (\<lambda>p. []),
      getsize = (\<lambda>p. Inr 2048),
      exchanges = (\<lambda>url.
        quick_exchange
          (Inr \<lparr>status_code = 200, http_error_text = [],
                json_body = Inr (PDict [(py ''Time Series (Daily)'', PDict [])])\<rparr>)),
      text_stamp = py ''2024-01-03 14:30:22'',
      json_stamp = py ''2024-01-03 14:30:23'',
      file_stamp = py ''20240103_143022'',
      fetched_at = py ''2024-01-03T14:30:22.512345''\<rparr>"

text \<open>A character database without rows beyond those written out above.\<close>

definition bare_ucd :: ucd where
  "bare_ucd = \<lparr>ucd_alpha = (\<lambda>c. False), ucd_upper = (\<lambda>c. False),
               ucd_lower = (\<lambda>c. False), ucd_title = (\<lambda>c. False)\<rparr>"

text \<open>
  The world after the two prompts were answered with \<open>demo\<close> and \<open>IBM\<close>, and the world
  after the first prompt met the end of the input.
\<close>

definition after_prompts :: world where
  "after_prompts =
     typing_world
       \<lparr>stdout :=
          [Text (str_times (py ''='') 60),
           Text (py '' Stock Market Data Fetcher - Enhanced Version''),
           Text (str_times (py ''='') 60),
           Text [],
           Prompt (py ''Enter your Alpha Vantage API key [demo]: ''),
           Prompt (py ''Enter stock symbol (e.g., IBM, AAPL, MSFT) [IBM]: '')],
        stdin := sconst EndOfInput\<rparr>"

definition closed_at_prompt :: world where
  "closed_at_prompt =
     quiet_world
       \<lparr>stdout :=
          [Text (str_times (py ''='') 60),
           Text (py '' Stock Market Data Fetcher - Enhanced Version''),
           Text (str_times (py ''='') 60),
           Text [],
           Prompt (py ''Enter your Alpha Vantage API key [demo]: ''),
           Text (nl @ py '' Unexpected end of input'')]\<rparr>"




definition disk_full_env :: env where
  "disk_full_env =
     calm_env\<lparr>write_all := (\<lambda>p. Some (Exc OtherOSError (py ''[Errno 28] No space left on device'')))\<rparr>"

definition read_only_env :: env where
  "read_only_env =
     calm_env\<lparr>open_w := (\<lambda>p. Some (Exc PermissionError (py ''[Errno 13] Permission denied'')))\<rparr>"

definition garbled_env :: env where
  "garbled_env =
     calm_env\<lparr>exchanges := (\<lambda>url.
       quick_exchange
         (Inr \<lparr>status_code = 200, http_error_text = [],
               json_body = Inl (Exc RequestsJSONDecodeError
                                  (py ''Expecting value: line 1 column 1 (char 0)''))\<rparr>))\<rparr>"

definition no_log_env :: env where
  "no_log_env =
     calm_env\<lparr>readlines := (\<lambda>p. Inl (Exc FileNotFoundError
                                        (py ''[Errno 2] No such file or directory'')))\<rparr>"

definition locked_dir_env :: env where
  "locked_dir_env =
     calm_env\<lparr>path_exists := (\<lambda>p. False),
              makedirs := (\<lambda>p. Some (Exc PermissionError (py ''[Errno 13] Permission denied'')))\<rparr>"

definition half_made_env :: env where
  "half_made_env =
     calm_env\<lparr>path_exists := (\<lambda>p. False),
              makedirs := (\<lambda>p. Some (Exc PermissionError (py ''[Errno 13] Permission denied''))),
              parents_made := (\<lambda>p. [py ''a''])\<rparr>"

definition new_dir_env :: env where
  "new_dir_env = calm_env\<lparr>path_exists := (\<lambda>p. False)\<rparr>"

definition stubborn_env :: env where
  "stubborn_env =
     calm_env\<lparr>path_exists := (\<lambda>p. False),
              open_w := (\<lambda>p. Some (Exc PermissionError (py ''[Errno 13] Permission denied'')))\<rparr>"

text \<open>The payload of the calm response and the file name \<open>main\<close> builds for it.\<close>

definition sample_data :: pyval where
  "sample_data = PDict [(py ''Time Series (Daily)'', PDict [])]"

definition sample_filename :: pystr where
  "sample_filename = py ''stock_data_IBM_20240103_143022.json''"

section \<open>Properties of the log analyzer\<close>

subsection \<open>Strings\<close>

lemma is_prefix_iff: "is_prefix xs ys = prefix xs ys"
  by (induction xs ys rule: is_prefix.induct) auto

lemma str_contains_iff: "str_contains s sub = sublist sub s"
  by (induction s) (auto simp: is_prefix_iff sublist_Cons_right)

lemma level_names_distinct:
  "py ''INFO'' \<noteq> py ''WARNING''" "py ''INFO'' \<noteq> py ''ERROR''" "py ''WARNING'' \<noteq> py ''ERROR''"
  "py ''WARNING'' \<noteq> py ''INFO''" "py ''ERROR'' \<noteq> py ''INFO''" "py ''ERROR'' \<noteq> py ''WARNING''"
  by (simp_all add: py_def)

lemma level_names_nonempty:
  "py ''INFO'' \<noteq> []" "py ''WARNING'' \<noteq> []" "py ''ERROR'' \<noteq> []"
  by (simp_all add: py_def)

subsection \<open>The counting loop\<close>

lemma analyze_loop_snoc: "analyze_loop a (ls @ [l]) = analyze_line (analyze_loop a ls) l"
  by (induction ls arbitrary: a) simp_all

lemma levels_ok_shape:
  "levels_ok a \<Longrightarrow> \<exists>i w e. counts a = [(py ''INFO'', i), (py ''WARNING'', w), (py ''ERROR'', e)]"
  unfolding levels_ok_def
  by (cases "counts a") (auto simp: map_eq_Cons_conv)

lemma keys_dict_incr: "map fst (dict_incr k d) = map fst d"
  by (induction d) (auto simp: dict_incr_def)

lemma analyze_line_levels_ok: "levels_ok a \<Longrightarrow> levels_ok (analyze_line a l)"
  by (simp add: levels_ok_def analyze_line_def count_line_def keys_dict_incr Let_def)

lemma analyze_loop_levels_ok: "levels_ok a \<Longrightarrow> levels_ok (analyze_loop a ls)"
  by (induction ls arbitrary: a) (simp_all add: analyze_line_levels_ok)

lemma analyze_logs_levels_ok: "levels_ok (analyze_logs ls)"
  unfolding analyze_logs_def by (rule analyze_loop_levels_ok) (simp add: levels_ok_def)

lemma analyze_line_counts:
  assumes "levels_ok a"
  shows "counts (analyze_line a l) =
         map (\<lambda>(level, n). (level, n + (if first_level (strip l) = Some level then 1 else 0)))
           (counts a)"
proof -
  obtain i w e where c: "counts a = [(py ''INFO'', i), (py ''WARNING'', w), (py ''ERROR'', e)]"
    using levels_ok_shape [OF assms] by blast
  show ?thesis
  proof (cases "strip l = []")
    case True
    then show ?thesis
      by (simp add: analyze_line_def first_level_def c level_names_nonempty)
  next
    case False
    then show ?thesis
      by (simp add: analyze_line_def first_level_def c count_line_def dict_incr_def
          str_contains_iff level_names_distinct Let_def)
  qed
qed

text \<open>
  Claim C6. Each further log line changes the counters of \<open>analyze_logs\<close> in one way
  only: the counter of the first of \<open>INFO\<close>, \<open>WARNING\<close>, \<open>ERROR\<close> that occurs as a
  substring of the stripped line goes up by one, and no counter changes when none of the
  three occurs (a blank line included). The counters are always those three, in this
  order.
\<close>

theorem analyze_logs_first_match:
  "map fst (counts (analyze_logs ls)) = [py ''INFO'', py ''WARNING'', py ''ERROR''] \<and>
   counts (analyze_logs (ls @ [l])) =
     map (\<lambda>(level, n). (level, n + (if first_level (strip l) = Some level then 1 else 0)))
       (counts (analyze_logs ls))"
proof -
  have "levels_ok (analyze_logs ls)"
    by (rule analyze_logs_levels_ok)
  moreover have "analyze_logs (ls @ [l]) = analyze_line (analyze_logs ls) l"
    by (simp add: analyze_logs_def analyze_loop_snoc)
  ultimately show ?thesis
    by (simp add: analyze_line_counts) (simp add: levels_ok_def)
qed

text \<open>
  The match is case-sensitive, and an earlier level name wins over a later one.
\<close>

lemma first_level_examples:
  "first_level (py ''disk ERROR after WARNING'') = Some (py ''WARNING'')"
  "first_level (py ''info: all fine'') = None"
  by (simp_all add: first_level_def py_def sublist_code(3))

subsection \<open>Counts and the total\<close>

lemma analyze_line_invariant:
  assumes "levels_ok a" and "sum_counts a \<le> total_lines a"
  shows "sum_counts (analyze_line a l) \<le> total_lines (analyze_line a l)"
proof -
  obtain i w e where c: "counts a = [(py ''INFO'', i), (py ''WARNING'', w), (py ''ERROR'', e)]"
    using levels_ok_shape [OF assms(1)] by blast
  show ?thesis
    using assms(2)
    by (simp add: analyze_line_def sum_counts_def c count_line_def dict_incr_def
        level_names_distinct Let_def)
qed

lemma analyze_loop_invariant:
  "levels_ok a \<Longrightarrow> sum_counts a \<le> total_lines a \<Longrightarrow>
   sum_counts (analyze_loop a ls) \<le> total_lines (analyze_loop a ls)"
  by (induction ls arbitrary: a) (simp_all add: analyze_line_invariant analyze_line_levels_ok)

lemma level_lines_append: "level_lines (xs @ ys) = level_lines xs @ level_lines ys"
  by (simp add: level_lines_def)

lemma print_summary_levels:
  assumes "levels_ok a"
  shows "snd (print_summary a w) = None \<and>
         level_lines (stdout (fst (print_summary a w))) =
           level_lines (stdout w) @
           map (\<lambda>(level, n). LevelLine level n (percentage_of n (sum_counts a))) (counts a)"
proof -
  obtain i wn e where c: "counts a = [(py ''INFO'', i), (py ''WARNING'', wn), (py ''ERROR'', e)]"
    using levels_ok_shape [OF assms] by blast
  show ?thesis
    by (simp add: print_summary_def c dict_get_def print_def emit_def Let_def sum_counts_def
        level_names_distinct level_lines_append) (simp add: level_lines_def)
qed

lemma unmatched_line_example:
  "counts (analyze_logs [py ''INFO up'', py ''plain text'']) =
     [(py ''INFO'', 1), (py ''WARNING'', 0), (py ''ERROR'', 0)] \<and>
   total_lines (analyze_logs [py ''INFO up'', py ''plain text'']) = 2"
  by (simp add: analyze_logs_def analyze_line_def count_line_def dict_incr_def Let_def
      strip_def is_space_def py_def)

text \<open>
  Claim C9. For every list of log lines the three counts of \<open>analyze_logs\<close> add up to at
  most \<open>total_lines\<close>, and there are logs where the sum is smaller (a non-blank line
  without a level name is counted in \<open>total_lines\<close> only). \<open>print_summary\<close> raises
  nothing on such an analysis, and the level lines it prints are, for each of the three
  levels, the count with the percentage \<open>count / total_messages * 100\<close> where
  \<open>total_messages\<close> is the sum of the three counts (or \<open>0\<close> when that sum is zero);
  \<open>total_lines\<close> does not enter.
\<close>

theorem counts_sum_and_percentages:
  "sum_counts (analyze_logs ls) \<le> total_lines (analyze_logs ls) \<and>
   (\<exists>ls'. sum_counts (analyze_logs ls') < total_lines (analyze_logs ls')) \<and>
   snd (print_summary (analyze_logs ls) w) = None \<and>
   level_lines (stdout (fst (print_summary (analyze_logs ls) w))) =
     level_lines (stdout w) @
     map (\<lambda>(level, n).
            LevelLine level n
              (if sum_counts (analyze_logs ls) \<noteq> 0 then Percent n (sum_counts (analyze_logs ls))
               else PercentZero))
       (counts (analyze_logs ls))"
proof -
  have inv: "sum_counts (analyze_logs ls) \<le> total_lines (analyze_logs ls)"
    unfolding analyze_logs_def
    by (rule analyze_loop_invariant) (simp_all add: levels_ok_def sum_counts_def)
  have "sum_counts (analyze_logs [py ''INFO up'', py ''plain text''])
          < total_lines (analyze_logs [py ''INFO up'', py ''plain text''])"
    by (simp add: sum_counts_def unmatched_line_example)
  then have ex: "\<exists>ls'. sum_counts (analyze_logs ls') < total_lines (analyze_logs ls')"
    by blast
  have ps: "snd (print_summary (analyze_logs ls) w) = None \<and>
         level_lines (stdout (fst (print_summary (analyze_logs ls) w))) =
           level_lines (stdout w) @
           map (\<lambda>(level, n). LevelLine level n (percentage_of n (sum_counts (analyze_logs ls))))
             (counts (analyze_logs ls))"
    by (rule print_summary_levels [OF analyze_logs_levels_ok])
  show ?thesis
    using inv ex ps by (simp add: percentage_of_def)
qed

subsection \<open>An empty log file\<close>

text \<open>
  Claim C10. When the log file exists and has no lines, \<open>read_log_file\<close> returns \<open>None\<close>
  after printing the text of the \<open>ValueError\<close> it raised itself; for \<open>app.log\<close>, the
  file \<open>main\<close> reads, \<open>main\<close> then prints \<open>Log analysis failed\<close> and returns without
  writing any file: there is no report with zero counts.
\<close>

theorem empty_log_is_a_failure:
  assumes "readlines E p = Inr []"
  shows "read_log_file E p w = (print (py ''ERROR: Log file is empty'') w, None) \<and>
         (p = py ''app.log'' \<longrightarrow>
            log_main E w =
              (print (nl @ py '' Log analysis failed'')
                 (print (py ''ERROR: Log file is empty'')
                    (print (py '' Reading log file: app.log'')
                       (print (nl @ py '' Starting Log Analysis...'') w))),
               Returned) \<and>
            files (fst (log_main E w)) = files w)"
proof -
  have t1: "py ''ERROR: '' @ py ''Log file is empty'' = py ''ERROR: Log file is empty''"
    by (simp add: py_def)
  have t2: "py '' Reading log file: '' @ py ''app.log'' = py '' Reading log file: app.log''"
    by (simp add: py_def)
  have r: "read_log_file E p w' = (print (py ''ERROR: Log file is empty'') w', None)" for w'
    using assms
    by (simp add: read_log_file_def is_FileNotFoundError_def is_ValueError_def t1)
  have m: "log_main E w =
              (print (nl @ py '' Log analysis failed'')
                 (print (py ''ERROR: Log file is empty'')
                    (print (py '' Reading log file: app.log'')
                       (print (nl @ py '' Starting Log Analysis...'') w))),
               Returned)" if "p = py ''app.log''"
    using r that by (simp add: log_main_def Let_def t2)
  have f: "files (fst (log_main E w)) = files w" if "p = py ''app.log''"
    by (simp add: m [OF that] print_def)
  show ?thesis
    using r m f by blast
qed

theorem empty_log_is_a_failure_witness:
  "readlines (calm_env\<lparr>readlines := (\<lambda>p. Inr [])\<rparr>) (py ''app.log'') = Inr [] \<and>
   read_log_file (calm_env\<lparr>readlines := (\<lambda>p. Inr [])\<rparr>) (py ''app.log'') quiet_world =
     (print (py ''ERROR: Log file is empty'') quiet_world, None) \<and>
   snd (log_main (calm_env\<lparr>readlines := (\<lambda>p. Inr [])\<rparr>) quiet_world) = Returned \<and>
   stdout (fst (log_main (calm_env\<lparr>readlines := (\<lambda>p. Inr [])\<rparr>) quiet_world)) =
     [Text (nl @ py '' Starting Log Analysis...''), Text (py '' Reading log file: app.log''),
      Text (py ''ERROR: Log file is empty''), Text (nl @ py '' Log analysis failed'')] \<and>
   files (fst (log_main (calm_env\<lparr>readlines := (\<lambda>p. Inr [])\<rparr>) quiet_world)) = Map.empty"
  using empty_log_is_a_failure
          [of "calm_env\<lparr>readlines := (\<lambda>p. Inr [])\<rparr>" "py ''app.log''" quiet_world]
  by (simp add: print_def quiet_world_def)

section \<open>Properties of the stock data fetcher\<close>

subsection \<open>The symbol validator\<close>

lemma ideograph_is_caseless_letter:
  "is_alpha U 0x4E2D" "\<not> is_upper U 0x4E2D" "\<not> is_lower U 0x4E2D" "\<not> is_title U 0x4E2D"
  by (simp_all add: is_alpha_def is_upper_def is_lower_def is_title_def is_ideograph_def)

lemma str_isupper_ascii:
  assumes "\<forall>c\<in>set s. c < 128" and "list_all (is_alpha U) s"
  shows "str_isupper U s = (s \<noteq> [] \<and> (\<forall>c\<in>set s. 65 \<le> c \<and> c \<le> 90))"
proof (cases s)
  case Nil
  then show ?thesis by (simp add: str_isupper_def)
next
  case (Cons a t)
  note s = Cons
  show ?thesis
  proof (cases t)
    case Nil
    with s assms show ?thesis by (simp add: str_isupper_def is_upper_def)
  next
    case (Cons b t')
    have low: "is_lower U c \<or> is_title U c \<longleftrightarrow> \<not> (65 \<le> c \<and> c \<le> 90)" if "c \<in> set s" for c
      using assms that
      by (auto simp: is_lower_def is_title_def is_alpha_def list_all_iff)
    have up: "is_upper U c \<longleftrightarrow> (65 \<le> c \<and> c \<le> 90)" if "c \<in> set s" for c
      using assms that by (auto simp: is_upper_def)
    have "str_isupper U s = (\<not> list_ex (\<lambda>c. is_lower U c \<or> is_title U c) s \<and> list_ex (is_upper U) s)"
      using s Cons by (simp add: str_isupper_def)
    also have "\<dots> = ((\<forall>c\<in>set s. 65 \<le> c \<and> c \<le> 90) \<and> (\<exists>c\<in>set s. 65 \<le> c \<and> c \<le> 90))"
      using low up by (auto simp: list_ex_iff)
    also have "\<dots> = (s \<noteq> [] \<and> (\<forall>c\<in>set s. 65 \<le> c \<and> c \<le> 90))"
      using s by auto
    finally show ?thesis .
  qed
qed

lemma validate_stock_symbol_ascii:
  assumes "\<forall>c\<in>set s. c < 128"
  shows "validate_stock_symbol U (PStr s) =
         (1 \<le> length s \<and> length s \<le> 5 \<and> (\<forall>c\<in>set s. 65 \<le> c \<and> c \<le> 90))"
proof (cases "list_all (is_alpha U) s")
  case True
  then show ?thesis
    using str_isupper_ascii [OF assms True]
    by (auto simp: validate_stock_symbol_def str_isalpha_def Suc_le_eq)
next
  case False
  then obtain c where "c \<in> set s" "\<not> is_alpha U c"
    by (auto simp: list_all_iff)
  with assms have "c \<in> set s" "\<not> (65 \<le> c \<and> c \<le> 90)"
    by (auto simp: is_alpha_def)
  with False show ?thesis
    by (auto simp: validate_stock_symbol_def str_isalpha_def)
qed

lemma validate_stock_symbol_not_str: "\<not> is_str v \<Longrightarrow> \<not> validate_stock_symbol U v"
  by (simp add: validate_stock_symbol_def)

text \<open>
  Claim C7. The claim has \<open>validate_stock_symbol\<close> accept exactly the strings of one to
  five uppercase letters. On the string of the two characters U+0041 and U+4E2D (the
  letter A followed by an ideograph) it returns \<open>True\<close>, although U+4E2D is a letter
  without case and not an uppercase letter: \<open>isalpha\<close> holds of every letter, and
  \<open>isupper\<close> only asks that no cased character is lowercase and that some character is
  uppercase. On ASCII strings the function does accept exactly one to five letters A to
  Z (\<open>validate_stock_symbol_ascii\<close>), and it rejects every object that is not a string
  (\<open>validate_stock_symbol_not_str\<close>).
\<close>

theorem validate_stock_symbol_accepts_caseless_letter:
  "validate_stock_symbol U (PStr [0x41, 0x4E2D]) \<and> is_alpha U 0x4E2D \<and> \<not> is_upper U 0x4E2D"
  by (simp add: validate_stock_symbol_def str_isalpha_def str_isupper_def
      is_alpha_def is_upper_def is_lower_def is_title_def is_ideograph_def)

theorem validate_stock_symbol_accepts_caseless_letter_witness:
  "validate_stock_symbol bare_ucd (PStr [0x41, 0x4E2D]) \<and> is_alpha bare_ucd 0x4E2D
   \<and> \<not> is_upper bare_ucd 0x4E2D"
  using validate_stock_symbol_accepts_caseless_letter [of bare_ucd] by simp

subsection \<open>What the functions leave alone\<close>

lemma get_user_input_keeps_files:
  assumes a: "get_user_input prompt dflt validator w = Some y"
  shows "files (fst y) = files w \<and> dirs_made (fst y) = dirs_made w"
proof (rule get_user_input.raw_induct
    [where P = "\<lambda>p d v w y. files (fst y) = files w \<and> dirs_made (fst y) = dirs_made w", OF _ a],
    goal_cases)
  case (1 f prompt dflt validator w y)
  note IH = 1(1) and eq = 1(2)
  from eq consider
      (direct) "files (fst y) = files w \<and> dirs_made (fst y) = dirs_made w"
    | (again) w' where "f prompt dflt validator w' = Some y" "files w' = files w"
        "dirs_made w' = dirs_made w"
    by (fastforce simp: Let_def emit_def print_def split: stdin_event.splits if_splits)
  then show ?case
  proof cases
    case direct
    then show ?thesis .
  next
    case again
    with IH [OF again(1)] show ?thesis by simp
  qed
qed

lemma print_frame [simp]:
  "files (print s w) = files w" "dirs_made (print s w) = dirs_made w" "stdin (print s w) = stdin w"
  "stdout (print s w) = stdout w @ [Text s]"
  by (simp_all add: print_def)

lemma emit_frame [simp]:
  "files (emit x w) = files w" "dirs_made (emit x w) = dirs_made w" "stdin (emit x w) = stdin w"
  "stdout (emit x w) = stdout w @ [x]"
  by (simp_all add: emit_def)

lemma fetch_handlers_frame [simp]:
  "files (fetch_handlers e w) = files w" "dirs_made (fetch_handlers e w) = dirs_made w"
  by (simp_all add: fetch_handlers_def)

lemma save_handlers_frame [simp]:
  "files (save_handlers e fn w) = files w" "dirs_made (save_handlers e fn w) = dirs_made w"
  by (simp_all add: save_handlers_def)

lemma fetch_attempt_frame:
  "files (fst (fetch_attempt E url symbol w)) = files w \<and>
   dirs_made (fst (fetch_attempt E url symbol w)) = dirs_made w"
  by (simp add: fetch_attempt_def split: sum.splits option.splits bool.splits)

lemma fetch_stock_data_frame:
  "files (fst (fetch_stock_data E api_url api_key symbol w)) = files w \<and>
   dirs_made (fst (fetch_stock_data E api_url api_key symbol w)) = dirs_made w"
proof -
  obtain w2 r where fa:
    "fetch_attempt E (api_url @ query symbol api_key) symbol
       (print (py '' Requesting data for '' @ symbol @ py ''...'') w) = (w2, r)"
    by fastforce
  with fetch_attempt_frame [of E "api_url @ query symbol api_key" symbol
      "print (py '' Requesting data for '' @ symbol @ py ''...'') w"]
  show ?thesis
    by (cases r) (simp_all add: fetch_stock_data_def Let_def)
qed

subsection \<open>The value of the fetch\<close>

text \<open>
  What \<open>fetch_stock_data\<close> returns depends on the answers of the network only, and a
  payload it returns is true in the sense of \<open>if stock_data:\<close>.
\<close>

lemma http_get_quick:
  assumes "exchanges E url = quick_exchange r"
  shows "http_get E url (Some 10) = r" and "http_get E url None = r"
  using assms by (simp_all add: http_get_def quick_exchange_def)

lemma http_get_calm:
  assumes "exchanges E = exchanges calm_env"
  shows "http_get E url (Some 10) =
           Inr \<lparr>status_code = 200, http_error_text = [], json_body = Inr sample_data\<rparr>"
  by (rule http_get_quick) (simp add: assms calm_env_def sample_data_def)

lemma http_get_garbled:
  "http_get garbled_env url (Some 10) =
     Inr \<lparr>status_code = 200, http_error_text = [],
          json_body = Inl (Exc RequestsJSONDecodeError
                             (py ''Expecting value: line 1 column 1 (char 0)''))\<rparr>"
  "http_get garbled_env url None =
     Inr \<lparr>status_code = 200, http_error_text = [],
          json_body = Inl (Exc RequestsJSONDecodeError
                             (py ''Expecting value: line 1 column 1 (char 0)''))\<rparr>"
  by (rule http_get_quick; simp add: garbled_env_def)+

lemma fetch_attempt_value:
  "snd (fetch_attempt E url symbol w) = snd (fetch_attempt E url symbol w')"
  by (simp add: fetch_attempt_def split: sum.splits option.splits bool.splits)

lemma fetch_stock_data_value:
  "snd (fetch_stock_data E api_url api_key symbol w) =
   (case snd (fetch_attempt E (api_url @ query symbol api_key) symbol w) of
      Inl e \<Rightarrow> None | Inr result \<Rightarrow> result)"
proof -
  obtain w2 r where fa:
    "fetch_attempt E (api_url @ query symbol api_key) symbol
       (print (py '' Requesting data for '' @ symbol @ py ''...'') w) = (w2, r)"
    by fastforce
  have "snd (fetch_attempt E (api_url @ query symbol api_key) symbol w) = r"
    using fetch_attempt_value [of E "api_url @ query symbol api_key" symbol w
        "print (py '' Requesting data for '' @ symbol @ py ''...'') w"] fa
    by simp
  then show ?thesis
    by (cases r) (simp_all add: fetch_stock_data_def Let_def fa)
qed

lemma fetch_stock_data_indep:
  "snd (fetch_stock_data E api_url api_key symbol w) =
   snd (fetch_stock_data E api_url api_key symbol w')"
  by (simp add: fetch_stock_data_value fetch_attempt_value [of E _ symbol w w'])

lemma fetch_attempt_Some:
  "snd (fetch_attempt E url symbol w) = Inr (Some d) \<longleftrightarrow>
   (\<exists>r. http_get E url (Some 10) = Inr r \<and> raise_for_status r = None \<and> json_body r = Inr d
        \<and> py_in (py ''Error Message'') d = Inr False \<and> py_in (py ''Note'') d = Inr False
        \<and> py_in (py ''Time Series (Daily)'') d = Inr True)"
  by (auto simp: fetch_attempt_def split: sum.splits option.splits bool.splits)

lemma fetch_stock_data_Some:
  "snd (fetch_stock_data E api_url api_key symbol w) = Some d \<longleftrightarrow>
   (\<exists>r. http_get E (api_url @ query symbol api_key) (Some 10) = Inr r
        \<and> raise_for_status r = None \<and> json_body r = Inr d
        \<and> py_in (py ''Error Message'') d = Inr False \<and> py_in (py ''Note'') d = Inr False
        \<and> py_in (py ''Time Series (Daily)'') d = Inr True)"
proof -
  have "snd (fetch_stock_data E api_url api_key symbol w) = Some d \<longleftrightarrow>
        snd (fetch_attempt E (api_url @ query symbol api_key) symbol w) = Inr (Some d)"
    by (simp add: fetch_stock_data_value split: sum.splits)
  then show ?thesis
    by (simp only: fetch_attempt_Some)
qed

lemma str_contains_nonempty: "str_contains s sub \<Longrightarrow> sub \<noteq> [] \<Longrightarrow> s \<noteq> []"
  by (cases s) auto

lemma py_in_truthy: "py_in k d = Inr True \<Longrightarrow> k \<noteq> [] \<Longrightarrow> truthy d"
  by (cases d) (auto dest: str_contains_nonempty)

lemma fetched_truthy:
  "snd (fetch_stock_data E api_url api_key symbol w) = Some d \<Longrightarrow> truthy d"
  unfolding fetch_stock_data_Some
  by (auto intro!: py_in_truthy [of "py ''Time Series (Daily)''"] simp: py_def)


text \<open>
  Claim C5, as amended. When the body of the response is not JSON, so that
  \<open>response.json()\<close> raises a decode error, \<open>fetch_stock_data\<close> of day 03 returns \<open>None\<close>
  after printing one diagnostic: the HTTP error for a status from 400 to 599, else
  \<open>Network error\<close> with the decoder's text when the exception is the class of
  \<open>requests\<close> (a \<open>RequestException\<close>, which the earlier clause catches), else
  \<open>Invalid JSON response from API\<close>; no exception leaves the function. \<open>fetch_api_data\<close>
  of day 02 has no handler: for a status outside 400 to 599 the decode error leaves it.
\<close>

theorem malformed_body_handled_by_day03_only:
  assumes "json_body r = Inl e" and "is_JSONDecodeError e"
  shows "(http_get E (api_url @ query symbol api_key) (Some 10) = Inr r \<longrightarrow>
            fetch_stock_data E api_url api_key symbol w =
              (print (if 400 \<le> status_code r \<and> status_code r < 600
                        then py '' HTTP Error: '' @ http_error_text r
                      else if is_RequestException e then py '' Network error: '' @ exc_str e
                      else py '' Error: Invalid JSON response from API'')
                 (print (py '' Requesting data for '' @ symbol @ py ''...'') w), None)) \<and>
         (http_get E API_URL None = Inr r \<and> raise_for_status r = None \<longrightarrow>
            fetch_api_data E = Inl e)"
proof -
  have c: "\<not> is_Timeout e" "\<not> is_ConnectionError e" "\<not> is_HTTPError e"
    using assms(2)
    by (auto simp: is_JSONDecodeError_def is_Timeout_def is_ConnectionError_def is_HTTPError_def)
  have h: "\<not> is_Timeout (Exc HTTPError m)" "\<not> is_ConnectionError (Exc HTTPError m)"
    "is_HTTPError (Exc HTTPError m)" for m
    by (simp_all add: is_Timeout_def is_ConnectionError_def is_HTTPError_def)
  show ?thesis
    using assms c
    by (auto simp: fetch_stock_data_def fetch_attempt_def fetch_handlers_def Let_def
        raise_for_status_def fetch_api_data_def h)
qed

theorem malformed_body_handled_by_day03_only_witness:
  "is_JSONDecodeError (Exc RequestsJSONDecodeError (py ''Expecting value: line 1 column 1 (char 0)'')) \<and>
   http_get garbled_env API_URL None =
     Inr \<lparr>status_code = 200, http_error_text = [],
          json_body = Inl (Exc RequestsJSONDecodeError
                             (py ''Expecting value: line 1 column 1 (char 0)''))\<rparr> \<and>
   fetch_stock_data garbled_env main_api_url (py ''demo'') (py ''IBM'') quiet_world =
     (quiet_world\<lparr>stdout :=
        [Text (py '' Requesting data for IBM...''),
         Text (py '' Network error: Expecting value: line 1 column 1 (char 0)'')]\<rparr>, None) \<and>
   fetch_api_data garbled_env =
     Inl (Exc RequestsJSONDecodeError (py ''Expecting value: line 1 column 1 (char 0)''))"
  using malformed_body_handled_by_day03_only
          [of "\<lparr>status_code = 200, http_error_text = [],
                json_body = Inl (Exc RequestsJSONDecodeError
                             (py ''Expecting value: line 1 column 1 (char 0)''))\<rparr>"
              "Exc RequestsJSONDecodeError (py ''Expecting value: line 1 column 1 (char 0)'')"
              garbled_env main_api_url "py ''IBM''" "py ''demo''" quiet_world]
  by (simp add: is_JSONDecodeError_def is_RequestException_def http_get_garbled raise_for_status_def)
     (simp add: print_def quiet_world_def py_def)

text \<open>
  As stated for every script that fetches, claim C5 fails on day 02: on a body that is
  not JSON the decode error leaves \<open>fetch_api_data\<close>.
\<close>

theorem unhandled_decode_error_counterexample:
  "json_body \<lparr>status_code = 200, http_error_text = [],
              json_body = Inl (Exc RequestsJSONDecodeError
                                 (py ''Expecting value: line 1 column 1 (char 0)''))\<rparr> =
     Inl (Exc RequestsJSONDecodeError (py ''Expecting value: line 1 column 1 (char 0)'')) \<and>
   fetch_api_data garbled_env =
     Inl (Exc RequestsJSONDecodeError (py ''Expecting value: line 1 column 1 (char 0)''))"
  by (simp add: fetch_api_data_def http_get_garbled raise_for_status_def)

subsection \<open>The result of the save\<close>

lemma save_result:
  "snd (save_data_to_file E data fn smb w) =
   (sink_opened E fn \<and> write_all E fn = None \<and> (\<exists>n. getsize E fn = Inr n))"
  by (auto simp: save_data_to_file_def save_attempt_def sink_opened_def directory_refused_def
      Let_def split: option.splits sum.splits prod.splits if_splits)

lemma save_files:
  "files (fst (save_data_to_file E data fn smb w)) =
   (if \<not> sink_opened E fn then files w
    else if write_all E fn \<noteq> None then (files w)(fn \<mapsto> Incomplete)
    else (files w)(fn \<mapsto> Complete (Json (output_record E data smb))))"
  by (auto simp: save_data_to_file_def save_attempt_def sink_opened_def directory_refused_def
      Let_def split: option.splits sum.splits prod.splits if_splits)

lemma save_dirs:
  "dirs_made (fst (save_data_to_file E data fn smb w)) =
   (if dirname fn \<noteq> [] \<and> \<not> path_exists E (dirname fn)
    then (if makedirs E (dirname fn) = None
          then dirs_made w @ parents_made E (dirname fn) @ [dirname fn]
          else dirs_made w @ parents_made E (dirname fn))
    else dirs_made w)"
  by (auto simp: save_data_to_file_def save_attempt_def
      Let_def split: option.splits sum.splits prod.splits if_splits)

lemma save_data_to_file_refused:
  assumes "(directory_refused E filename \<and> makedirs E (dirname filename) = Some e)
           \<or> (\<not> directory_refused E filename \<and> open_w E filename = Some e)"
    and "is_PermissionError e"
  shows "save_data_to_file E data filename symbol w =
           (print (py '' Error: Permission denied writing to '' @ [39] @ filename @ [39])
              (if directory_refused E filename
                 then w\<lparr>dirs_made := dirs_made w @ parents_made E (dirname filename)\<rparr>
               else if dirname filename \<noteq> [] \<and> \<not> path_exists E (dirname filename)
                 then print (py '' Created directory: '' @ dirname filename)
                        (w\<lparr>dirs_made := dirs_made w @ parents_made E (dirname filename)
                                      @ [dirname filename]\<rparr>)
               else w), False)"
  using assms
  by (auto simp: save_data_to_file_def save_attempt_def save_handlers_def directory_refused_def
      is_PermissionError_def is_FileNotFoundError_def Let_def)

lemma dirname_nested: "dirname (py ''a/b/data.json'') = py ''a/b''"
  by (simp add: dirname_def py_def)

lemma dirname_sample: "dirname (py ''out/data.json'') = py ''out''"
  by (simp add: dirname_def py_def)

text \<open>
  Claim C8, as amended. If the directory of the destination is named and does not
  exist, and \<open>os.makedirs\<close>, \<open>open\<close>, the writes and \<open>os.path.getsize\<close> all succeed,
  then \<open>save_data_to_file\<close> creates the directory (after its missing parents), leaves
  the complete record in the file and returns \<open>True\<close>. If the first step that needs the
  permission (\<open>os.makedirs\<close> when the directory is missing, else \<open>open\<close>) raises
  \<open>PermissionError\<close>, it returns \<open>False\<close> after printing \<open>Permission denied writing to\<close>
  with the file name, and creates no file; when it is \<open>os.makedirs\<close> that raised, the
  directories created are the parents that \<open>os.makedirs\<close> had made before it raised,
  and no other.
\<close>

theorem persist_creates_directory_or_is_refused:
  "(dirname filename \<noteq> [] \<and> \<not> path_exists E (dirname filename)
      \<and> makedirs E (dirname filename) = None \<and> open_w E filename = None
      \<and> write_all E filename = None \<and> getsize E filename = Inr n \<longrightarrow>
      snd (save_data_to_file E data filename symbol w) = True \<and>
      dirs_made (fst (save_data_to_file E data filename symbol w)) =
        dirs_made w @ parents_made E (dirname filename) @ [dirname filename] \<and>
      files (fst (save_data_to_file E data filename symbol w)) =
        (files w)(filename \<mapsto> Complete (Json (output_record E data symbol)))) \<and>
   (is_PermissionError e \<and>
      ((directory_refused E filename \<and> makedirs E (dirname filename) = Some e)
       \<or> (\<not> directory_refused E filename \<and> open_w E filename = Some e)) \<longrightarrow>
      snd (save_data_to_file E data filename symbol w) = False \<and>
      last (stdout (fst (save_data_to_file E data filename symbol w))) =
        Text (py '' Error: Permission denied writing to '' @ [39] @ filename @ [39]) \<and>
      files (fst (save_data_to_file E data filename symbol w)) = files w \<and>
      (directory_refused E filename \<longrightarrow>
         dirs_made (fst (save_data_to_file E data filename symbol w)) =
           dirs_made w @ parents_made E (dirname filename)))"
proof -
  have a: "snd (save_data_to_file E data filename symbol w) = True \<and>
      dirs_made (fst (save_data_to_file E data filename symbol w)) =
        dirs_made w @ parents_made E (dirname filename) @ [dirname filename] \<and>
      files (fst (save_data_to_file E data filename symbol w)) =
        (files w)(filename \<mapsto> Complete (Json (output_record E data symbol)))"
    if "dirname filename \<noteq> []" "\<not> path_exists E (dirname filename)"
      "makedirs E (dirname filename) = None" "open_w E filename = None"
      "write_all E filename = None" "getsize E filename = Inr n"
    using that
    by (simp add: save_result save_files save_dirs sink_opened_def directory_refused_def)
  have b: "snd (save_data_to_file E data filename symbol w) = False \<and>
      last (stdout (fst (save_data_to_file E data filename symbol w))) =
        Text (py '' Error: Permission denied writing to '' @ [39] @ filename @ [39]) \<and>
      files (fst (save_data_to_file E data filename symbol w)) = files w \<and>
      (directory_refused E filename \<longrightarrow>
         dirs_made (fst (save_data_to_file E data filename symbol w)) =
           dirs_made w @ parents_made E (dirname filename))"
    if "is_PermissionError e"
      "(directory_refused E filename \<and> makedirs E (dirname filename) = Some e)
       \<or> (\<not> directory_refused E filename \<and> open_w E filename = Some e)"
    using save_data_to_file_refused [OF that(2) that(1), of data symbol w]
    by simp
  show ?thesis
    using a b by blast
qed

theorem persist_creates_directory_or_is_refused_witness:
  "dirname (py ''out/data.json'') \<noteq> [] \<and>
   \<not> path_exists new_dir_env (dirname (py ''out/data.json'')) \<and>
   snd (save_data_to_file new_dir_env sample_data (py ''out/data.json'') (py ''IBM'') quiet_world) = True \<and>
   dirs_made (fst (save_data_to_file new_dir_env sample_data (py ''out/data.json'') (py ''IBM'')
                     quiet_world)) = [py ''out''] \<and>
   files (fst (save_data_to_file new_dir_env sample_data (py ''out/data.json'') (py ''IBM'')
                 quiet_world)) =
     Map.empty(py ''out/data.json'' \<mapsto>
       Complete (Json (output_record new_dir_env sample_data (py ''IBM'')))) \<and>
   is_PermissionError (Exc PermissionError (py ''[Errno 13] Permission denied'')) \<and>
   directory_refused half_made_env (py ''a/b/data.json'') \<and>
   snd (save_data_to_file half_made_env sample_data (py ''a/b/data.json'') (py ''IBM'') quiet_world)
     = False \<and>
   last (stdout (fst (save_data_to_file half_made_env sample_data (py ''a/b/data.json'')
                        (py ''IBM'') quiet_world))) =
     Text (py '' Error: Permission denied writing to '' @ [39] @ py ''a/b/data.json'' @ [39]) \<and>
   files (fst (save_data_to_file half_made_env sample_data (py ''a/b/data.json'') (py ''IBM'')
                 quiet_world)) = Map.empty \<and>
   dirs_made (fst (save_data_to_file half_made_env sample_data (py ''a/b/data.json'') (py ''IBM'')
                     quiet_world)) = [py ''a'']"
proof -
  have ne: "py ''out'' \<noteq> []" "py ''a/b'' \<noteq> []"
    by (simp_all add: py_def)
  have r: "directory_refused half_made_env (py ''a/b/data.json'')"
    by (simp add: directory_refused_def dirname_nested ne) (simp add: half_made_env_def)
  have m: "makedirs half_made_env (py ''a/b'') =
           Some (Exc PermissionError (py ''[Errno 13] Permission denied''))"
    by (simp add: half_made_env_def)
  from persist_creates_directory_or_is_refused
         [where filename = "py ''out/data.json''" and E = new_dir_env and n = 2048
            and e = "Exc PermissionError (py ''[Errno 13] Permission denied'')"
            and data = sample_data and symbol = "py ''IBM''" and w = quiet_world]
       persist_creates_directory_or_is_refused
         [where filename = "py ''a/b/data.json''" and E = half_made_env and n = 2048
            and e = "Exc PermissionError (py ''[Errno 13] Permission denied'')"
            and data = sample_data and symbol = "py ''IBM''" and w = quiet_world]
       r m
  show ?thesis
    by (simp add: dirname_sample dirname_nested ne is_PermissionError_def)
       (simp add: new_dir_env_def half_made_env_def calm_env_def quiet_world_def)
qed

text \<open>
  As stated, claim C8 fails. For \<open>out/data.json\<close> with \<open>out\<close> missing and not allowed to
  be created, the function returns \<open>False\<close> and creates no directory, where the claim
  has it create the directory and succeed. For \<open>a/b/data.json\<close>, when \<open>os.makedirs\<close>
  creates \<open>a\<close> and is then refused \<open>a/b\<close>, and for \<open>out/data.json\<close>, when \<open>out\<close> is
  created and \<open>open\<close> is then refused, the function fails with the permission message
  after having created a directory, where the claim has it create nothing.
\<close>

theorem missing_directory_counterexample:
  "dirname (py ''out/data.json'') = py ''out'' \<and>
   path_exists locked_dir_env (py ''out'') = False \<and>
   save_data_to_file locked_dir_env sample_data (py ''out/data.json'') (py ''IBM'') quiet_world =
     (quiet_world\<lparr>stdout :=
        [Text (py '' Error: Permission denied writing to '' @ [39] @ py ''out/data.json'' @ [39])]\<rparr>, False) \<and>
   makedirs half_made_env (py ''a/b'') =
     Some (Exc PermissionError (py ''[Errno 13] Permission denied'')) \<and>
   snd (save_data_to_file half_made_env sample_data (py ''a/b/data.json'') (py ''IBM'') quiet_world)
     = False \<and>
   last (stdout (fst (save_data_to_file half_made_env sample_data (py ''a/b/data.json'')
                        (py ''IBM'') quiet_world))) =
     Text (py '' Error: Permission denied writing to '' @ [39] @ py ''a/b/data.json'' @ [39]) \<and>
   dirs_made (fst (save_data_to_file half_made_env sample_data (py ''a/b/data.json'') (py ''IBM'')
                     quiet_world)) = [py ''a''] \<and>
   open_w stubborn_env (py ''out/data.json'') =
     Some (Exc PermissionError (py ''[Errno 13] Permission denied'')) \<and>
   snd (save_data_to_file stubborn_env sample_data (py ''out/data.json'') (py ''IBM'') quiet_world)
     = False \<and>
   last (stdout (fst (save_data_to_file stubborn_env sample_data (py ''out/data.json'')
                        (py ''IBM'') quiet_world))) =
     Text (py '' Error: Permission denied writing to '' @ [39] @ py ''out/data.json'' @ [39]) \<and>
   dirs_made (fst (save_data_to_file stubborn_env sample_data (py ''out/data.json'') (py ''IBM'')
                     quiet_world)) = [py ''out'']"
proof -
  have ne: "py ''out'' \<noteq> []" "py ''a/b'' \<noteq> []"
    by (simp_all add: py_def)
  have pe: "is_PermissionError (Exc PermissionError (py ''[Errno 13] Permission denied''))"
    by (simp add: is_PermissionError_def)
  have rl: "directory_refused locked_dir_env (py ''out/data.json'')"
    by (simp add: directory_refused_def dirname_sample ne) (simp add: locked_dir_env_def)
  have a: "save_data_to_file locked_dir_env sample_data (py ''out/data.json'') (py ''IBM'') quiet_world =
     (quiet_world\<lparr>stdout :=
        [Text (py '' Error: Permission denied writing to '' @ [39] @ py ''out/data.json'' @ [39])]\<rparr>, False)"
    using save_data_to_file_refused
            [where E = locked_dir_env and filename = "py ''out/data.json''"
               and e = "Exc PermissionError (py ''[Errno 13] Permission denied'')"
               and data = sample_data and symbol = "py ''IBM''" and w = quiet_world] rl pe
    by (simp add: dirname_sample) (simp add: locked_dir_env_def calm_env_def print_def quiet_world_def)
  have rh: "directory_refused half_made_env (py ''a/b/data.json'')"
    by (simp add: directory_refused_def dirname_nested ne) (simp add: half_made_env_def)
  have h: "save_data_to_file half_made_env sample_data (py ''a/b/data.json'') (py ''IBM'') quiet_world =
     (print (py '' Error: Permission denied writing to '' @ [39] @ py ''a/b/data.json'' @ [39])
        (quiet_world\<lparr>dirs_made := [py ''a'']\<rparr>), False)"
    using save_data_to_file_refused
            [where E = half_made_env and filename = "py ''a/b/data.json''"
               and e = "Exc PermissionError (py ''[Errno 13] Permission denied'')"
               and data = sample_data and symbol = "py ''IBM''" and w = quiet_world] rh pe
    by (simp add: dirname_nested) (simp add: half_made_env_def quiet_world_def)
  have b: "snd (save_data_to_file stubborn_env sample_data (py ''out/data.json'') (py ''IBM'') quiet_world)
     = False"
    by (simp add: save_result sink_opened_def stubborn_env_def)
  have c: "dirs_made (fst (save_data_to_file stubborn_env sample_data (py ''out/data.json'') (py ''IBM'')
                     quiet_world)) = [py ''out'']"
    by (simp add: save_dirs dirname_sample ne) (simp add: stubborn_env_def calm_env_def quiet_world_def)
  have d: "last (stdout (fst (save_data_to_file stubborn_env sample_data (py ''out/data.json'')
                        (py ''IBM'') quiet_world))) =
     Text (py '' Error: Permission denied writing to '' @ [39] @ py ''out/data.json'' @ [39])"
    using save_data_to_file_refused
            [where E = stubborn_env and filename = "py ''out/data.json''"
               and e = "Exc PermissionError (py ''[Errno 13] Permission denied'')"
               and data = sample_data and symbol = "py ''IBM''" and w = quiet_world]
    by (simp add: directory_refused_def is_PermissionError_def stubborn_env_def calm_env_def)
  show ?thesis
    using a b c d h
    by (simp add: dirname_sample) (simp add: locked_dir_env_def stubborn_env_def half_made_env_def)
qed

subsection \<open>The prompts\<close>

text \<open>
  One round of the loop; the loop returns as soon as an event of the input ends it; it
  leaves through \<open>sys.exit\<close> with status 0 or 1 only.
\<close>

lemma get_user_input_step:
  "get_user_input prompt dflt validator w =
     (case shd (stdin w) of
        CtrlC \<Rightarrow>
          Some (print (nl @ nl @ py ''  Operation cancelled by user'')
                  (emit (Prompt (prompt_text prompt dflt)) w), Inl 0)
      | EndOfInput \<Rightarrow>
          Some (print (nl @ py '' Unexpected end of input'')
                  (emit (Prompt (prompt_text prompt dflt)) w), Inl 1)
      | Entered typed \<Rightarrow>
          if answer dflt typed = [] then
            get_user_input prompt dflt validator
              (print (py '' Input cannot be empty. Please try again.'')
                 ((emit (Prompt (prompt_text prompt dflt)) w)\<lparr>stdin := stl (stdin w)\<rparr>))
          else if (case validator of None \<Rightarrow> False | Some v \<Rightarrow> \<not> v (PStr (answer dflt typed))) then
            get_user_input prompt dflt validator
              (print (py '' Invalid input format. Please try again.'')
                 ((emit (Prompt (prompt_text prompt dflt)) w)\<lparr>stdin := stl (stdin w)\<rparr>))
          else Some ((emit (Prompt (prompt_text prompt dflt)) w)\<lparr>stdin := stl (stdin w)\<rparr>,
                     Inr (answer dflt typed)))"
  by (rule trans [OF get_user_input.simps]) (cases "shd (stdin w)"; simp add: Let_def)

lemma get_user_input_ends:
  "ends_prompt dflt validator (stdin w !! n) \<Longrightarrow>
   \<exists>y. get_user_input prompt dflt validator w = Some y"
proof (induction n arbitrary: w)
  case 0
  then show ?case
    by (subst get_user_input_step)
       (auto simp: ends_prompt_def split: stdin_event.splits option.splits)
next
  case (Suc n)
  show ?case
  proof (cases "ends_prompt dflt validator (shd (stdin w))")
    case True
    then show ?thesis
      by (subst get_user_input_step)
         (auto simp: ends_prompt_def split: stdin_event.splits option.splits)
  next
    case False
    then obtain typed where e: "shd (stdin w) = Entered typed"
      by (cases "shd (stdin w)") (simp_all add: ends_prompt_def)
    have n: "ends_prompt dflt validator (stdin (print s ((emit x w)\<lparr>stdin := stl (stdin w)\<rparr>)) !! n)"
      for s x
      using Suc.prems by simp
    show ?thesis
      using False e Suc.IH [OF n]
      by (subst get_user_input_step)
         (auto simp: ends_prompt_def split: option.splits)
  qed
qed

lemma get_user_input_exit:
  assumes a: "get_user_input prompt dflt validator w = Some y"
  shows "case snd y of
           Inl status \<Rightarrow>
             (status = 0 \<and> last (stdout (fst y)) = Text (nl @ nl @ py ''  Operation cancelled by user''))
             \<or> (status = 1 \<and> last (stdout (fst y)) = Text (nl @ py '' Unexpected end of input''))
         | Inr v \<Rightarrow> True"
proof (rule get_user_input.raw_induct
    [where P = "\<lambda>p d v w y. case snd y of
           Inl status \<Rightarrow>
             (status = 0 \<and> last (stdout (fst y)) = Text (nl @ nl @ py ''  Operation cancelled by user''))
             \<or> (status = 1 \<and> last (stdout (fst y)) = Text (nl @ py '' Unexpected end of input''))
         | Inr v \<Rightarrow> True", OF _ a],
    goal_cases)
  case (1 f prompt dflt validator w y)
  note IH = 1(1) and eq = 1(2)
  from eq consider
      (interrupt) "y = (print (nl @ nl @ py ''  Operation cancelled by user'')
                         (emit (Prompt (prompt_text prompt dflt)) w), Inl 0)"
    | (closed) "y = (print (nl @ py '' Unexpected end of input'')
                         (emit (Prompt (prompt_text prompt dflt)) w), Inl 1)"
    | (accepted) w' v where "y = (w', Inr v)"
    | (again) w' where "f prompt dflt validator w' = Some y"
    by (fastforce simp: Let_def prompt_text_def split: stdin_event.splits if_splits)
  then show ?case
  proof cases
    case again
    then show ?thesis by (rule IH)
  qed simp_all
qed

lemma get_user_input_accepts:
  assumes "shd (stdin w) = Entered typed" and "answer dflt typed \<noteq> []"
    and "case validator of None \<Rightarrow> True | Some v \<Rightarrow> v (PStr (answer dflt typed))"
  shows "get_user_input prompt dflt validator w =
           Some ((emit (Prompt (prompt_text prompt dflt)) w)\<lparr>stdin := stl (stdin w)\<rparr>,
                 Inr (answer dflt typed))"
  using assms by (subst get_user_input_step) (simp split: option.splits)

lemma read_inputs_typing:
  "read_inputs U typing_world =
     Some (typing_world
             \<lparr>stdout :=
                [Text (str_times (py ''='') 60),
                 Text (py '' Stock Market Data Fetcher - Enhanced Version''),
                 Text (str_times (py ''='') 60),
                 Text [],
                 Prompt (py ''Enter your Alpha Vantage API key [demo]: ''),
                 Prompt (py ''Enter stock symbol (e.g., IBM, AAPL, MSFT) [IBM]: '')],
              stdin := sconst EndOfInput\<rparr>,
           Inr (py ''demo'', py ''IBM''))"
proof -
  have s: "strip (py ''demo'') = py ''demo''" "strip (py ''IBM'') = py ''IBM''"
    by (simp_all add: strip_def is_space_def py_def)
  have a: "answer (Some (py ''demo'')) (py ''demo'') = py ''demo''"
      "answer (Some (py ''IBM'')) (py ''IBM'') = py ''IBM''"
    by (simp_all add: answer_def s)
  have ne: "py ''demo'' \<noteq> []" "py ''IBM'' \<noteq> []"
    by (simp_all add: py_def)
  have v: "validate_stock_symbol U (PStr (py ''IBM''))"
    by (simp add: validate_stock_symbol_ascii py_def)
  have p: "prompt_text (py ''Enter your Alpha Vantage API key'') (Some (py ''demo'')) =
           py ''Enter your Alpha Vantage API key [demo]: ''"
     "prompt_text (py ''Enter stock symbol (e.g., IBM, AAPL, MSFT)'') (Some (py ''IBM'')) =
      py ''Enter stock symbol (e.g., IBM, AAPL, MSFT) [IBM]: ''"
    by (simp_all add: prompt_text_def py_def)
  have g1: "get_user_input (py ''Enter your Alpha Vantage API key'') (Some (py ''demo'')) None w =
            Some ((emit (Prompt (py ''Enter your Alpha Vantage API key [demo]: '')) w)
                    \<lparr>stdin := stl (stdin w)\<rparr>, Inr (py ''demo''))"
    if "shd (stdin w) = Entered (py ''demo'')" for w
    using get_user_input_accepts [of w "py ''demo''" "Some (py ''demo'')" None
        "py ''Enter your Alpha Vantage API key''"] that
    by (simp add: a ne p)
  have g2: "get_user_input (py ''Enter stock symbol (e.g., IBM, AAPL, MSFT)'') (Some (py ''IBM''))
              (Some (validate_stock_symbol U)) w =
            Some ((emit (Prompt (py ''Enter stock symbol (e.g., IBM, AAPL, MSFT) [IBM]: '')) w)
               \<lparr>stdin := stl (stdin w)\<rparr>, Inr (py ''IBM''))"
    if "shd (stdin w) = Entered (py ''IBM'')" for w
    using get_user_input_accepts [of w "py ''IBM''" "Some (py ''IBM'')"
        "Some (validate_stock_symbol U)" "py ''Enter stock symbol (e.g., IBM, AAPL, MSFT)''"] that
    by (simp add: a ne p v)
  have k: "validate_api_key (PStr (py ''demo''))"
    by (simp add: validate_api_key_def py_def)
  show ?thesis
    by (simp add: read_inputs_def Let_def g1 g2 k typing_world_def quiet_world_def
        print_def emit_def)
qed

lemma read_inputs_sample:
  "read_inputs U typing_world = Some (after_prompts, Inr (py ''demo'', py ''IBM''))"
  unfolding after_prompts_def by (rule read_inputs_typing)

lemma read_inputs_closed: "read_inputs U quiet_world = Some (closed_at_prompt, Inl 1)"
proof -
  have p: "prompt_text (py ''Enter your Alpha Vantage API key'') (Some (py ''demo'')) =
           py ''Enter your Alpha Vantage API key [demo]: ''"
    by (simp add: prompt_text_def py_def)
  have g: "get_user_input (py ''Enter your Alpha Vantage API key'') (Some (py ''demo'')) None w =
           Some (print (nl @ py '' Unexpected end of input'')
                   (emit (Prompt (py ''Enter your Alpha Vantage API key [demo]: '')) w), Inl 1)"
    if "shd (stdin w) = EndOfInput" for w
    using that by (subst get_user_input_step) (simp add: p)
  show ?thesis
    by (simp add: read_inputs_def Let_def g quiet_world_def closed_at_prompt_def print_def emit_def)
qed

lemma read_inputs_frame:
  assumes "read_inputs U w = Some (w1, r)"
  shows "files w1 = files w \<and> dirs_made w1 = dirs_made w"
proof -
  let ?w4 = "print [] (print (str_times (py ''='') 60)
               (print (py '' Stock Market Data Fetcher - Enhanced Version'')
                  (print (str_times (py ''='') 60) w)))"
  obtain w5 r1 where g1:
    "get_user_input (py ''Enter your Alpha Vantage API key'') (Some (py ''demo'')) None ?w4 =
       Some (w5, r1)"
    using assms by (auto simp: read_inputs_def Let_def split: option.splits)
  have f5: "files w5 = files w \<and> dirs_made w5 = dirs_made w"
    using get_user_input_keeps_files [OF g1] by simp
  show ?thesis
  proof (cases r1)
    case (Inl status)
    with assms g1 f5 show ?thesis
      by (simp add: read_inputs_def Let_def)
  next
    case (Inr api_key)
    let ?w6 = "if \<not> validate_api_key (PStr api_key) \<and> api_key \<noteq> py ''demo''
               then print (py ''  Warning: API key looks invalid (using anyway)'') w5 else w5"
    obtain w7 r2 where g2:
      "get_user_input (py ''Enter stock symbol (e.g., IBM, AAPL, MSFT)'') (Some (py ''IBM''))
         (Some (validate_stock_symbol U)) ?w6 = Some (w7, r2)"
      using assms g1 Inr by (auto simp: read_inputs_def Let_def split: option.splits)
    have f7: "files w7 = files w \<and> dirs_made w7 = dirs_made w"
      using get_user_input_keeps_files [OF g2] f5 by simp
    from assms g1 Inr g2 have "w1 = w7"
      by (cases r2) (simp_all add: read_inputs_def Let_def)
    with f7 show ?thesis by simp
  qed
qed

lemma read_inputs_exit:
  assumes "read_inputs U w = Some (w1, Inl status)"
  shows "(status = 0 \<and> last (stdout w1) = Text (nl @ nl @ py ''  Operation cancelled by user''))
         \<or> (status = 1 \<and> last (stdout w1) = Text (nl @ py '' Unexpected end of input''))"
proof -
  let ?w4 = "print [] (print (str_times (py ''='') 60)
               (print (py '' Stock Market Data Fetcher - Enhanced Version'')
                  (print (str_times (py ''='') 60) w)))"
  obtain w5 r1 where g1:
    "get_user_input (py ''Enter your Alpha Vantage API key'') (Some (py ''demo'')) None ?w4 =
       Some (w5, r1)"
    using assms by (auto simp: read_inputs_def Let_def split: option.splits)
  show ?thesis
  proof (cases r1)
    case (Inl s1)
    with assms g1 get_user_input_exit [OF g1] show ?thesis
      by (simp add: read_inputs_def Let_def)
  next
    case (Inr api_key)
    let ?w6 = "if \<not> validate_api_key (PStr api_key) \<and> api_key \<noteq> py ''demo''
               then print (py ''  Warning: API key looks invalid (using anyway)'') w5 else w5"
    obtain w7 r2 where g2:
      "get_user_input (py ''Enter stock symbol (e.g., IBM, AAPL, MSFT)'') (Some (py ''IBM''))
         (Some (validate_stock_symbol U)) ?w6 = Some (w7, r2)"
      using assms g1 Inr by (auto simp: read_inputs_def Let_def split: option.splits)
    from assms g1 Inr g2 get_user_input_exit [OF g2] show ?thesis
      by (cases r2) (simp_all add: read_inputs_def Let_def)
  qed
qed

text \<open>
  The loop returns exactly when some event of the input ends it, and it reads the input
  from the front: on an input of empty lines for ever, at a prompt without default, it
  has no value. So \<open>main\<close> gets through its prompts, or leaves at one of them, whenever the
  input has an event that ends the first prompt and, from every position on, an event
  that ends the second.
\<close>

lemma get_user_input_stdin:
  assumes a: "get_user_input prompt dflt validator w = Some y"
  shows "\<exists>k. stdin (fst y) = sdrop k (stdin w)"
proof (rule get_user_input.raw_induct
    [where P = "\<lambda>p d v w y. \<exists>k. stdin (fst y) = sdrop k (stdin w)", OF _ a], goal_cases)
  case (1 f prompt dflt validator w y)
  note IH = 1(1) and eq = 1(2)
  from eq consider
      (direct) "stdin (fst y) = stdin w"
    | (accepted) "stdin (fst y) = stl (stdin w)"
    | (again) w' where "f prompt dflt validator w' = Some y" "stdin w' = stl (stdin w)"
    by (fastforce simp: Let_def split: stdin_event.splits if_splits)
  then show ?case
  proof cases
    case direct
    then have "stdin (fst y) = sdrop 0 (stdin w)" by simp
    then show ?thesis by blast
  next
    case accepted
    then have "stdin (fst y) = sdrop 1 (stdin w)" by simp
    then show ?thesis by blast
  next
    case again
    from IH [OF again(1)] obtain k where "stdin (fst y) = sdrop k (stdin w')" by blast
    with again(2) have "stdin (fst y) = sdrop (Suc k) (stdin w)" by simp
    then show ?thesis by blast
  qed
qed

lemma get_user_input_only_if_ended:
  assumes a: "get_user_input prompt dflt validator w = Some y"
  shows "\<exists>n. ends_prompt dflt validator (stdin w !! n)"
proof (rule get_user_input.raw_induct
    [where P = "\<lambda>p d v w y. \<exists>n. ends_prompt d v (stdin w !! n)", OF _ a], goal_cases)
  case (1 f prompt dflt validator w y)
  note IH = 1(1) and eq = 1(2)
  from eq consider
      (now) "ends_prompt dflt validator (stdin w !! 0)"
    | (again) w' where "f prompt dflt validator w' = Some y" "stdin w' = stl (stdin w)"
    by (fastforce simp: Let_def ends_prompt_def split: stdin_event.splits if_splits option.splits)
  then show ?case
  proof cases
    case now
    then show ?thesis by blast
  next
    case again
    from IH [OF again(1)] obtain n where "ends_prompt dflt validator (stdin w' !! n)" by blast
    with again(2) have "ends_prompt dflt validator (stdin w !! Suc n)" by simp
    then show ?thesis by blast
  qed
qed

lemma get_user_input_returns_iff:
  "(\<exists>y. get_user_input prompt dflt validator w = Some y) \<longleftrightarrow>
   (\<exists>n. ends_prompt dflt validator (stdin w !! n))"
  using get_user_input_only_if_ended get_user_input_ends by blast

lemma get_user_input_endless:
  "get_user_input (py ''Enter stock symbol'') None None
     (quiet_world\<lparr>stdin := sconst (Entered [])\<rparr>) = None"
proof -
  have "\<not> ends_prompt None None (stdin (quiet_world\<lparr>stdin := sconst (Entered [])\<rparr>) !! n)" for n
    by (simp add: ends_prompt_def answer_def strip_def)
  with get_user_input_only_if_ended show ?thesis
    by (metis not_Some_eq)
qed

lemma read_inputs_returns:
  assumes "\<exists>n. ends_prompt (Some (py ''demo'')) None (stdin w !! n)"
    and "\<forall>k. \<exists>n. ends_prompt (Some (py ''IBM'')) (Some (validate_stock_symbol U))
                   (stdin w !! (k + n))"
  shows "\<exists>y. read_inputs U w = Some y"
proof -
  let ?w4 = "print [] (print (str_times (py ''='') 60)
               (print (py '' Stock Market Data Fetcher - Enhanced Version'')
                  (print (str_times (py ''='') 60) w)))"
  from assms(1) obtain n where "ends_prompt (Some (py ''demo'')) None (stdin ?w4 !! n)"
    by auto
  from get_user_input_ends [OF this] obtain w5 r1 where g1:
    "get_user_input (py ''Enter your Alpha Vantage API key'') (Some (py ''demo'')) None ?w4 =
       Some (w5, r1)"
    by fastforce
  show ?thesis
  proof (cases r1)
    case (Inl status)
    with g1 show ?thesis
      by (simp add: read_inputs_def Let_def)
  next
    case (Inr api_key)
    let ?w6 = "if \<not> validate_api_key (PStr api_key) \<and> api_key \<noteq> py ''demo''
               then print (py ''  Warning: API key looks invalid (using anyway)'') w5 else w5"
    from get_user_input_stdin [OF g1] obtain k where "stdin w5 = sdrop k (stdin w)"
      by auto
    then have k: "stdin ?w6 = sdrop k (stdin w)"
      by simp
    from assms(2) obtain m where
      "ends_prompt (Some (py ''IBM'')) (Some (validate_stock_symbol U)) (stdin w !! (k + m))"
      by blast
    then have "ends_prompt (Some (py ''IBM'')) (Some (validate_stock_symbol U)) (stdin ?w6 !! m)"
      by (simp only: k sdrop_snth)
    from get_user_input_ends [OF this] obtain y2 where g2:
      "get_user_input (py ''Enter stock symbol (e.g., IBM, AAPL, MSFT)'') (Some (py ''IBM''))
         (Some (validate_stock_symbol U)) ?w6 = Some y2"
      by blast
    obtain w7 r2 where y2: "y2 = (w7, r2)"
      by (cases y2)
    from g1 Inr g2 y2 show ?thesis
      by (cases r2) (simp_all add: read_inputs_def Let_def)
  qed
qed

subsection \<open>The run after the prompts\<close>

lemma stock_main_run:
  "read_inputs U w0 = Some (w1, Inr (api_key, symbol)) \<Longrightarrow>
   stock_main U E w0 = Some (fetch_and_save E api_key symbol w1)"
  by (simp add: stock_main_def)

lemma stock_main_returns:
  assumes "\<exists>n. ends_prompt (Some (py ''demo'')) None (stdin w !! n)"
    and "\<forall>k. \<exists>n. ends_prompt (Some (py ''IBM'')) (Some (validate_stock_symbol U))
                   (stdin w !! (k + n))"
  shows "\<exists>y. stock_main U E w = Some y"
proof -
  from read_inputs_returns [OF assms] obtain w1 r where "read_inputs U w = Some (w1, r)"
    by fastforce
  then show ?thesis
    by (cases r) (auto simp: stock_main_def)
qed

lemma fetch_and_save_nothing:
  assumes "snd (fetch_stock_data E main_api_url api_key symbol w) = None"
  shows "snd (fetch_and_save E api_key symbol w) = Exited 1 \<and>
         files (fst (fetch_and_save E api_key symbol w)) = files w \<and>
         dirs_made (fst (fetch_and_save E api_key symbol w)) = dirs_made w \<and>
         (\<exists>pre. stdout (fst (fetch_and_save E api_key symbol w)) = pre @ failure_report)"
proof -
  let ?w2 = "print (str_times (py ''-'') 60) (print [] w)"
  obtain w3 sd where f: "fetch_stock_data E main_api_url api_key symbol ?w2 = (w3, sd)"
    by fastforce
  have "sd = None"
    using assms f fetch_stock_data_indep [of E main_api_url api_key symbol ?w2 w] by simp
  moreover have "files w3 = files w \<and> dirs_made w3 = dirs_made w"
    using fetch_stock_data_frame [of E main_api_url api_key symbol ?w2] f by simp
  ultimately show ?thesis
    by (simp add: fetch_and_save_def Let_def f failure_report_def)
qed

lemma fetch_and_save_something:
  assumes "snd (fetch_stock_data E main_api_url api_key symbol w) = Some d"
  shows "snd (fetch_and_save E api_key symbol w) =
           (if save_ok E (output_filename E symbol) then Returned else Exited 1) \<and>
         files (fst (fetch_and_save E api_key symbol w)) =
           (if \<not> sink_opened E (output_filename E symbol) then files w
            else if write_all E (output_filename E symbol) \<noteq> None
              then (files w)(output_filename E symbol \<mapsto> Incomplete)
            else (files w)(output_filename E symbol \<mapsto>
                   Complete (Json (output_record E d symbol)))) \<and>
         (\<not> save_ok E (output_filename E symbol) \<longrightarrow>
            last (stdout (fst (fetch_and_save E api_key symbol w))) =
              Text (nl @ py ''  Data fetched but could not be saved''))"
proof -
  let ?w2 = "print (str_times (py ''-'') 60) (print [] w)"
  let ?fn = "output_filename E symbol"
  obtain w3 sd where f: "fetch_stock_data E main_api_url api_key symbol ?w2 = (w3, sd)"
    by fastforce
  have sd: "sd = Some d"
    using assms f fetch_stock_data_indep [of E main_api_url api_key symbol ?w2 w] by simp
  have t: "truthy d"
    using assms by (rule fetched_truthy)
  have fr: "files w3 = files w"
    using fetch_stock_data_frame [of E main_api_url api_key symbol ?w2] f by simp
  obtain w5 b where s: "save_data_to_file E d ?fn symbol (print [] w3) = (w5, b)"
    by fastforce
  have b: "b = save_ok E ?fn"
    using save_result [of E d ?fn symbol "print [] w3"] s by (simp add: save_ok_def)
  have fs: "files w5 =
           (if \<not> sink_opened E ?fn then files w
            else if write_all E ?fn \<noteq> None then (files w)(?fn \<mapsto> Incomplete)
            else (files w)(?fn \<mapsto> Complete (Json (output_record E d symbol))))"
    using save_files [of E d ?fn symbol "print [] w3"] s fr by simp
  show ?thesis
    by (cases b) (simp_all add: fetch_and_save_def Let_def f sd t s fs b [symmetric])
qed

lemma fetch_and_save_success:
  assumes "snd (fetch_stock_data E main_api_url api_key symbol w) = Some d"
    and "save_ok E (output_filename E symbol)"
  shows "Text (py '' Operation completed successfully!'')
           \<in> set (stdout (fst (fetch_and_save E api_key symbol w)))"
proof -
  let ?w2 = "print (str_times (py ''-'') 60) (print [] w)"
  let ?fn = "output_filename E symbol"
  obtain w3 sd where f: "fetch_stock_data E main_api_url api_key symbol ?w2 = (w3, sd)"
    by fastforce
  have sd: "sd = Some d"
    using assms(1) f fetch_stock_data_indep [of E main_api_url api_key symbol ?w2 w] by simp
  have t: "truthy d"
    using assms(1) by (rule fetched_truthy)
  obtain w5 b where s: "save_data_to_file E d ?fn symbol (print [] w3) = (w5, b)"
    by fastforce
  have b: "b"
    using save_result [of E d ?fn symbol "print [] w3"] s assms(2) by (simp add: save_ok_def)
  show ?thesis
    using b by (simp add: fetch_and_save_def Let_def f sd t s)
qed

lemma sample_fetch:
  "exchanges E = exchanges calm_env \<Longrightarrow>
   snd (fetch_stock_data E main_api_url (py ''demo'') (py ''IBM'') w) = Some sample_data"
  by (simp add: fetch_stock_data_Some http_get_calm sample_data_def raise_for_status_def py_def)

lemma sample_output_filename:
  "file_stamp E = file_stamp calm_env \<Longrightarrow> output_filename E (py ''IBM'') = sample_filename"
  by (simp add: output_filename_def calm_env_def sample_filename_def py_def)

lemma sample_dirname: "dirname sample_filename = []"
  by (simp add: dirname_def sample_filename_def py_def)










text \<open>
  Claim C1, as amended. For every run of \<open>main\<close> whose prompts were answered, the files
  after the run are those before it, except for the output file: when
  \<open>fetch_stock_data\<close> returned a payload and the file was opened, the file holds the
  complete record if the writes succeeded, and is left created but incomplete if
  \<open>json.dump\<close> or the closing of the file raised. When the fetch returned \<open>None\<close>, or
  the directory step or \<open>open\<close> raised, no file is created or changed.
\<close>

theorem record_written_exactly_when:
  assumes "read_inputs U w0 = Some (w1, Inr (api_key, symbol))"
  shows "\<exists>w' r. stock_main U E w0 = Some (w', r) \<and>
           files w' =
             (case snd (fetch_stock_data E main_api_url api_key symbol w0) of
                None \<Rightarrow> files w0
              | Some d \<Rightarrow>
                  if \<not> sink_opened E (output_filename E symbol) then files w0
                  else if write_all E (output_filename E symbol) \<noteq> None
                    then (files w0)(output_filename E symbol \<mapsto> Incomplete)
                  else (files w0)(output_filename E symbol \<mapsto>
                         Complete (Json (output_record E d symbol))))"
proof -
  have fr: "files w1 = files w0"
    using read_inputs_frame [OF assms] by simp
  have ind: "snd (fetch_stock_data E main_api_url api_key symbol w0) =
             snd (fetch_stock_data E main_api_url api_key symbol w1)"
    by (rule fetch_stock_data_indep)
  obtain w' r where fs: "fetch_and_save E api_key symbol w1 = (w', r)"
    by fastforce
  have m: "stock_main U E w0 = Some (w', r)"
    using stock_main_run [OF assms, of E] fs by simp
  show ?thesis
  proof (cases "snd (fetch_stock_data E main_api_url api_key symbol w1)")
    case None
    from fetch_and_save_nothing [OF None] fs fr m ind None show ?thesis
      by simp
  next
    case (Some d)
    from fetch_and_save_something [OF Some] fs fr m ind Some show ?thesis
      by simp
  qed
qed

theorem record_written_exactly_when_witness:
  "read_inputs bare_ucd typing_world = Some (after_prompts, Inr (py ''demo'', py ''IBM'')) \<and>
   (\<exists>w' r. stock_main bare_ucd calm_env typing_world = Some (w', r) \<and>
      files w' =
        Map.empty(sample_filename \<mapsto>
          Complete (Json (output_record calm_env sample_data (py ''IBM'')))))"
  using record_written_exactly_when [OF read_inputs_sample, of bare_ucd calm_env]
    sample_fetch [of calm_env typing_world] sample_output_filename [of calm_env] sample_dirname
    read_inputs_sample [of bare_ucd]
  by (simp add: sink_opened_def directory_refused_def)
     (simp add: calm_env_def typing_world_def quiet_world_def)

text \<open>
  As stated, claim C1 fails. With a full device the fetch returns a payload and
  \<open>save_data_to_file\<close> returns \<open>False\<close>, so that \<open>main\<close> exits with status 1; but the
  output file, which did not exist before, has been created by \<open>open\<close> and is left
  incomplete.
\<close>

theorem partial_record_counterexample:
  "snd (fetch_stock_data disk_full_env main_api_url (py ''demo'') (py ''IBM'') typing_world) =
     Some sample_data \<and>
   snd (save_data_to_file disk_full_env sample_data sample_filename (py ''IBM'') typing_world) = False \<and>
   files typing_world sample_filename = None \<and>
   (\<exists>w'. stock_main bare_ucd disk_full_env typing_world = Some (w', Exited 1) \<and>
      files w' sample_filename = Some Incomplete)"
proof -
  have f: "snd (fetch_stock_data disk_full_env main_api_url (py ''demo'') (py ''IBM'') w) =
           Some sample_data" for w
    by (rule sample_fetch) (simp add: disk_full_env_def)
  have n: "output_filename disk_full_env (py ''IBM'') = sample_filename"
    by (rule sample_output_filename) (simp add: disk_full_env_def)
  have o: "sink_opened disk_full_env sample_filename"
    by (simp add: sink_opened_def directory_refused_def sample_dirname)
       (simp add: disk_full_env_def calm_env_def)
  have w: "write_all disk_full_env sample_filename \<noteq> None"
    by (simp add: disk_full_env_def)
  have s: "snd (save_data_to_file disk_full_env sample_data sample_filename (py ''IBM'') typing_world)
           = False"
    using w by (simp add: save_result)
  have i: "files typing_world sample_filename = None"
    by (simp add: typing_world_def quiet_world_def)
  obtain w' r where fs: "fetch_and_save disk_full_env (py ''demo'') (py ''IBM'') after_prompts = (w', r)"
    by fastforce
  have fr: "files after_prompts = files typing_world"
    by (simp add: after_prompts_def)
  from fetch_and_save_something [OF f [of after_prompts]] fs n o w fr
  have "r = Exited 1" "files w' sample_filename = Some Incomplete"
    by (simp_all add: save_ok_def)
  with stock_main_run [OF read_inputs_sample, of bare_ucd disk_full_env] fs f s i
  show ?thesis by simp
qed

text \<open>
  Claim C3, as amended. For every run of \<open>main\<close> whose prompts were answered, whose
  request gets a response with a status outside 400 to 599 and a JSON body that has
  neither \<open>Error Message\<close> nor \<open>Note\<close> but has \<open>Time Series (Daily)\<close>, and whose sink is
  opened, written and measured without an exception: \<open>main\<close> returns, and the output
  file holds the complete record, whose entry \<open>stock_data\<close> is the parsed body itself.
\<close>

theorem valid_run_persists_payload:
  assumes "read_inputs U w0 = Some (w1, Inr (api_key, symbol))"
    and "http_get E (main_api_url @ query symbol api_key) (Some 10) = Inr r"
    and "raise_for_status r = None" and "json_body r = Inr data"
    and "py_in (py ''Error Message'') data = Inr False"
    and "py_in (py ''Note'') data = Inr False"
    and "py_in (py ''Time Series (Daily)'') data = Inr True"
    and "sink_opened E (output_filename E symbol)"
    and "write_all E (output_filename E symbol) = None"
    and "getsize E (output_filename E symbol) = Inr n"
  shows "\<exists>w'. stock_main U E w0 = Some (w', Returned) \<and>
           files w' (output_filename E symbol) =
             Some (Complete (Json (output_record E data symbol))) \<and>
           py_item (output_record E data symbol) (py ''stock_data'') = Inr data"
proof -
  have f: "snd (fetch_stock_data E main_api_url api_key symbol w1) = Some data"
    using assms(2-7) by (auto simp: fetch_stock_data_Some)
  obtain w' r' where fs: "fetch_and_save E api_key symbol w1 = (w', r')"
    by fastforce
  have item: "py_item (output_record E data symbol) (py ''stock_data'') = Inr data"
    by (simp add: output_record_def dict_get_def py_def)
  from fetch_and_save_something [OF f] fs assms(8-10)
  have "r' = Returned"
    "files w' (output_filename E symbol) = Some (Complete (Json (output_record E data symbol)))"
    by (simp_all add: save_ok_def)
  with stock_main_run [OF assms(1), of E] fs item show ?thesis
    by simp
qed

theorem valid_run_persists_payload_witness:
  "read_inputs bare_ucd typing_world = Some (after_prompts, Inr (py ''demo'', py ''IBM'')) \<and>
   sink_opened calm_env sample_filename \<and>
   (\<exists>w'. stock_main bare_ucd calm_env typing_world = Some (w', Returned) \<and>
      files w' sample_filename =
        Some (Complete (Json (output_record calm_env sample_data (py ''IBM'')))) \<and>
      py_item (output_record calm_env sample_data (py ''IBM'')) (py ''stock_data'') =
        Inr sample_data)"
proof -
  have n: "output_filename calm_env (py ''IBM'') = sample_filename"
    by (rule sample_output_filename) simp
  have o: "sink_opened calm_env sample_filename"
    by (simp add: sink_opened_def directory_refused_def sample_dirname) (simp add: calm_env_def)
  have g: "http_get calm_env (main_api_url @ query (py ''IBM'') (py ''demo'')) (Some 10) =
           Inr \<lparr>status_code = 200, http_error_text = [], json_body = Inr sample_data\<rparr>"
    by (rule http_get_calm) simp
  have p: "py_in (py ''Error Message'') sample_data = Inr False"
      "py_in (py ''Note'') sample_data = Inr False"
      "py_in (py ''Time Series (Daily)'') sample_data = Inr True"
    by (simp_all add: sample_data_def py_def)
  from valid_run_persists_payload [where U = bare_ucd and n = 2048, OF read_inputs_sample g _ _ p] n o
    read_inputs_sample [of bare_ucd]
  show ?thesis
    by (simp add: raise_for_status_def calm_env_def)
qed

text \<open>
  As stated, claim C3 fails: the request is valid, the resource is reachable and the
  response is well formed, but \<open>open\<close> is refused; \<open>main\<close> exits with status 1 and no
  file holds a record.
\<close>

theorem sink_failure_counterexample:
  "http_get read_only_env (main_api_url @ query (py ''IBM'') (py ''demo'')) (Some 10) =
     Inr \<lparr>status_code = 200, http_error_text = [], json_body = Inr sample_data\<rparr> \<and>
   snd (fetch_stock_data read_only_env main_api_url (py ''demo'') (py ''IBM'') typing_world) =
     Some sample_data \<and>
   (\<exists>w'. stock_main bare_ucd read_only_env typing_world = Some (w', Exited 1) \<and>
      files w' = Map.empty)"
proof -
  have g: "http_get read_only_env (main_api_url @ query (py ''IBM'') (py ''demo'')) (Some 10) =
     Inr \<lparr>status_code = 200, http_error_text = [], json_body = Inr sample_data\<rparr>"
    by (rule http_get_calm) (simp add: read_only_env_def)
  have f: "snd (fetch_stock_data read_only_env main_api_url (py ''demo'') (py ''IBM'') w) =
           Some sample_data" for w
    by (rule sample_fetch) (simp add: read_only_env_def)
  have o: "\<not> sink_opened read_only_env fn" for fn
    by (simp add: sink_opened_def read_only_env_def)
  obtain w' r where fs: "fetch_and_save read_only_env (py ''demo'') (py ''IBM'') after_prompts = (w', r)"
    by fastforce
  have fr: "files after_prompts = Map.empty"
    by (simp add: after_prompts_def typing_world_def quiet_world_def)
  from fetch_and_save_something [OF f [of after_prompts]] fs o fr
  have "r = Exited 1" "files w' = Map.empty"
    by (simp_all add: save_ok_def)
  with stock_main_run [OF read_inputs_sample, of bare_ucd read_only_env] fs f g
  show ?thesis by simp
qed

section \<open>The exit status of the two scripts\<close>

lemma log_main_unreadable:
  assumes "log_unreadable E"
  shows "snd (log_main E w) = Returned \<and>
         last (stdout (fst (log_main E w))) = Text (nl @ py '' Log analysis failed'') \<and>
         files (fst (log_main E w)) = files w"
proof -
  let ?w2 = "print (py '' Reading log file: '' @ py ''app.log'')
               (print (nl @ py '' Starting Log Analysis...'') w)"
  obtain w3 x where r: "read_log_file E (py ''app.log'') ?w2 = (w3, x)"
    by fastforce
  have "x = None \<and> files w3 = files w"
    using assms r
    by (auto simp: log_unreadable_def read_log_file_def Let_def split: sum.splits if_splits)
  then show ?thesis
    by (simp add: log_main_def Let_def r)
qed

lemma log_main_readable:
  assumes "\<not> log_unreadable E"
  shows "snd (log_main E w) = Returned \<and>
         last (stdout (fst (log_main E w))) =
           Text (nl @ py '' Log analysis completed successfully!'' @ nl)"
proof -
  obtain ls where ls: "readlines E (py ''app.log'') = Inr ls" "ls \<noteq> []"
    using assms by (auto simp: log_unreadable_def split: sum.splits)
  have r: "read_log_file E (py ''app.log'') w' = (w', Some ls)" for w'
    using ls by (simp add: read_log_file_def)
  let ?w4 = "print (py '' Successfully read '' @ str_nat (length ls) @ py '' lines'')
               (print (py '' Reading log file: '' @ py ''app.log'')
                  (print (nl @ py '' Starting Log Analysis...'') w))"
  obtain w5 x where p: "print_summary (analyze_logs ls) ?w4 = (w5, x)"
    by fastforce
  have "x = None"
    using print_summary_levels [OF analyze_logs_levels_ok, of ls ?w4] p by simp
  then show ?thesis
    using ls by (simp add: log_main_def Let_def r p)
qed

text \<open>
  Claim C2, as amended. \<open>main\<close> of the log analyzer ends with status 0 on every run: it
  has no \<open>sys.exit\<close>, and its last line is \<open>Log analysis failed\<close> when the log could
  not be read and \<open>Log analysis completed successfully!\<close> otherwise. A run of \<open>main\<close> of
  the stock fetcher that gets through its prompts or leaves at one of them ends
  \<^item> with the status of \<open>sys.exit\<close> at the prompt: 0 after \<open>Operation cancelled by user\<close>,
    1 after \<open>Unexpected end of input\<close>;
  \<^item> with status 1 after the report of the failure when the fetch returned \<open>None\<close>;
  \<^item> with status 1 after \<open>Data fetched but could not be saved\<close> when the fetch returned
    a payload and \<open>save_data_to_file\<close> returned \<open>False\<close>;
  \<^item> by returning (status 0) after \<open>Operation completed successfully!\<close> otherwise.
\<close>

theorem exit_statuses_of_the_two_mains:
  "exit_status (snd (log_main E w)) = 0 \<and>
   last (stdout (fst (log_main E w))) =
     Text (if log_unreadable E then nl @ py '' Log analysis failed''
           else nl @ py '' Log analysis completed successfully!'' @ nl) \<and>
   (read_inputs U w0 = Some (w1, r) \<longrightarrow>
      (\<exists>w' res. stock_main U E w0 = Some (w', res) \<and>
         (case r of
            Inl status \<Rightarrow>
              res = Exited status \<and>
              (if status = 0
               then last (stdout w') = Text (nl @ nl @ py ''  Operation cancelled by user'')
               else status = 1 \<and> last (stdout w') = Text (nl @ py '' Unexpected end of input''))
          | Inr (api_key, symbol) \<Rightarrow>
              (case snd (fetch_stock_data E main_api_url api_key symbol w0) of
                 None \<Rightarrow> res = Exited 1 \<and> (\<exists>pre. stdout w' = pre @ failure_report)
               | Some d \<Rightarrow>
                   if save_ok E (output_filename E symbol)
                   then res = Returned \<and>
                        Text (py '' Operation completed successfully!'') \<in> set (stdout w')
                   else res = Exited 1 \<and>
                        last (stdout w') = Text (nl @ py ''  Data fetched but could not be saved'')))))"
proof -
  have l: "exit_status (snd (log_main E w)) = 0 \<and>
   last (stdout (fst (log_main E w))) =
     Text (if log_unreadable E then nl @ py '' Log analysis failed''
           else nl @ py '' Log analysis completed successfully!'' @ nl)"
    using log_main_unreadable [of E w] log_main_readable [of E w]
    by (cases "log_unreadable E") simp_all
  have s: "\<exists>w' res. stock_main U E w0 = Some (w', res) \<and>
         (case r of
            Inl status \<Rightarrow>
              res = Exited status \<and>
              (if status = 0
               then last (stdout w') = Text (nl @ nl @ py ''  Operation cancelled by user'')
               else status = 1 \<and> last (stdout w') = Text (nl @ py '' Unexpected end of input''))
          | Inr (api_key, symbol) \<Rightarrow>
              (case snd (fetch_stock_data E main_api_url api_key symbol w0) of
                 None \<Rightarrow> res = Exited 1 \<and> (\<exists>pre. stdout w' = pre @ failure_report)
               | Some d \<Rightarrow>
                   if save_ok E (output_filename E symbol)
                   then res = Returned \<and>
                        Text (py '' Operation completed successfully!'') \<in> set (stdout w')
                   else res = Exited 1 \<and>
                        last (stdout w') = Text (nl @ py ''  Data fetched but could not be saved'')))"
    if ri: "read_inputs U w0 = Some (w1, r)"
  proof (cases r)
    case (Inl status)
    with ri read_inputs_exit [of U w0 w1 status] show ?thesis
      by (auto simp: stock_main_def)
  next
    case (Inr ks)
    obtain api_key symbol where ks: "ks = (api_key, symbol)"
      by (cases ks)
    have ri': "read_inputs U w0 = Some (w1, Inr (api_key, symbol))"
      using ri Inr ks by simp
    obtain w' res where fs: "fetch_and_save E api_key symbol w1 = (w', res)"
      by fastforce
    have m: "stock_main U E w0 = Some (w', res)"
      using stock_main_run [OF ri', of E] fs by simp
    have ind: "snd (fetch_stock_data E main_api_url api_key symbol w0) =
               snd (fetch_stock_data E main_api_url api_key symbol w1)"
      by (rule fetch_stock_data_indep)
    show ?thesis
    proof (cases "snd (fetch_stock_data E main_api_url api_key symbol w1)")
      case None
      from fetch_and_save_nothing [OF None] fs m ind None Inr ks show ?thesis
        by simp
    next
      case (Some d)
      from fetch_and_save_something [OF Some] fetch_and_save_success [OF Some]
        fs m ind Some Inr ks show ?thesis
        by simp
    qed
  qed
  show ?thesis
    using l s by blast
qed

theorem exit_statuses_of_the_two_mains_witness:
  "read_inputs bare_ucd quiet_world = Some (closed_at_prompt, Inl 1) \<and>
   log_unreadable no_log_env \<and>
   exit_status (snd (log_main no_log_env quiet_world)) = 0 \<and>
   last (stdout (fst (log_main no_log_env quiet_world))) = Text (nl @ py '' Log analysis failed'') \<and>
   (\<exists>w'. stock_main bare_ucd no_log_env quiet_world = Some (w', Exited 1) \<and>
      last (stdout w') = Text (nl @ py '' Unexpected end of input'')) \<and>
   read_inputs bare_ucd typing_world = Some (after_prompts, Inr (py ''demo'', py ''IBM'')) \<and>
   save_ok calm_env sample_filename \<and>
   (\<exists>w'. stock_main bare_ucd calm_env typing_world = Some (w', Returned) \<and>
      Text (py '' Operation completed successfully!'') \<in> set (stdout w'))"
proof -
  have u: "log_unreadable no_log_env"
    by (simp add: log_unreadable_def no_log_env_def)
  have n: "output_filename calm_env (py ''IBM'') = sample_filename"
    by (rule sample_output_filename) simp
  have o: "save_ok calm_env sample_filename"
    by (simp add: save_ok_def sink_opened_def directory_refused_def sample_dirname)
       (simp add: calm_env_def)
  from exit_statuses_of_the_two_mains
         [where E = no_log_env and w = quiet_world and U = bare_ucd and ?w0.0 = quiet_world
            and ?w1.0 = closed_at_prompt and r = "Inl 1"]
       exit_statuses_of_the_two_mains
         [where E = calm_env and w = quiet_world and U = bare_ucd and ?w0.0 = typing_world
            and ?w1.0 = after_prompts and r = "Inr (py ''demo'', py ''IBM'')"]
       read_inputs_closed [of bare_ucd] read_inputs_sample [of bare_ucd]
       sample_fetch [of calm_env typing_world] u n o
  show ?thesis
    by auto
qed

text \<open>
  As stated, claim C2 fails on the log analyzer: with the log file missing, the run
  prints its failure and ends with status 0.
\<close>

theorem failed_run_with_status_zero_counterexample:
  "readlines no_log_env (py ''app.log'') =
     Inl (Exc FileNotFoundError (py ''[Errno 2] No such file or directory'')) \<and>
   stdout (fst (log_main no_log_env quiet_world)) =
     [Text (nl @ py '' Starting Log Analysis...''),
      Text (py '' Reading log file: app.log''),
      Text (py ''ERROR: File '' @ [39] @ py ''app.log'' @ [39] @ py '' not found''),
      Text (nl @ py '' Log analysis failed'')] \<and>
   exit_status (snd (log_main no_log_env quiet_world)) = 0"
  by (simp add: log_main_def read_log_file_def no_log_env_def Let_def is_FileNotFoundError_def
      print_def quiet_world_def)
     (simp add: py_def)

end
